theory Spec2Isabelle
  imports Main "HOL-Library.Word"
begin

section \<open>Data model of core/state\_processor.go\<close>

text \<open>
  Byte slices are lists of bytes. \<open>common.Address\<close> is a 20-byte array and
  \<open>common.Hash\<close> a 32-byte array; both are kept as byte lists, the address taken
  from a slice being its first 20 bytes. \<open>*big.Int\<close> values are \<open>int option\<close>
  (\<open>None\<close> is the nil pointer), \<open>uint64\<close> is \<open>64 word\<close>.
\<close>

type_synonym byte = "8 word"
type_synonym Address = "byte list"
type_synonym Hash = "byte list"
type_synonym AccessList = "(Address \<times> Hash list) list"

text \<open>\<open>common.Address{}\<close> and \<open>common.Hash{}\<close>: the zero values.\<close>

definition zeroAddress :: Address where
  "zeroAddress = replicate 20 0"

definition zeroHash :: Hash where
  "zeroHash = replicate 32 0"

text \<open>
  Errors are values. \<open>ErrorsNew\<close> is \<open>errors.New\<close> with its text,
  \<open>CouldNotApplyTx i h e\<close> is
  \<open>fmt.Errorf("could not apply tx %d [%v]: %w", i, tx.Hash().Hex(), err)\<close>, and
  \<open>ExternalError\<close> is an error value produced by a collaborator outside this file
  (the call-frame invoker, the signer, the JSON library).
\<close>

datatype error =
    ExternalError string
  | ErrorsNew string
  | CouldNotApplyTx nat Hash error

text \<open>Run-time panics of Go that the code of this file can raise itself.\<close>

datatype panic = NilPointerDereference | SliceBoundsOutOfRange

text \<open>
  The outcome of a Go function of result type \<open>(T, error)\<close>: it returns a value with
  a nil error, returns an error, or panics.
\<close>

datatype 'a result = Ok 'a | Err error | Panic panic

text \<open>
  The transaction types (\<open>tx.Type()\<close>). The numeric constants are declared in
  core/types; only their distinctness matters here.
\<close>

datatype TxType = LegacyTxType | AccessListTxType | DynamicFeeTxType | BlobTxType
  | ALEXF_AA_TX_TYPE

text \<open>
  \<open>core.Message\<close>, with the fields this file sets. \<open>&Message{}\<close> is
  \<open>emptyMessage\<close>: every field at its zero value, in particular no recipient.
\<close>

record Message =
  From :: Address
  To :: "Address option"
  Value :: "int option"
  GasLimit :: "64 word"
  GasPrice :: "int option"
  GasFeeCap :: "int option"
  GasTipCap :: "int option"
  Data :: "byte list"
  AccessList :: AccessList
  SkipAccountChecks :: bool
  IsInnerAATxFrame :: bool

definition emptyMessage :: Message where
  "emptyMessage = \<lparr>From = zeroAddress, To = None, Value = None, GasLimit = 0,
     GasPrice = None, GasFeeCap = None, GasTipCap = None, Data = [], AccessList = [],
     SkipAccountChecks = False, IsInnerAATxFrame = False\<rparr>"

text \<open>
  \<open>types.AlexfAccountAbstractionTx\<close>, with the fields this file reads.
  \<open>Sender\<close> is a pointer (\<open>*aatx.Sender\<close> is dereferenced, and \<open>aatx.Sender\<close>
  is assigned to the pointer field \<open>To\<close>).
\<close>

record AlexfAccountAbstractionTx =
  Sender :: "Address option"
  aa_AccessList :: AccessList
  DeployerData :: "byte list"
  PaymasterData :: "byte list"

text \<open>
  A transaction, as the accessors used in this file see it: \<open>tx.Type()\<close>,
  \<open>tx.Hash()\<close>, \<open>tx.Nonce()\<close>, \<open>tx.BlobHashes()\<close> and
  \<open>tx.AlexfAATransactionData()\<close>.
\<close>

record Transaction =
  tx_Type :: TxType
  tx_Hash :: Hash
  tx_Nonce :: "64 word"
  tx_BlobHashes :: "Hash list"
  tx_AlexfAATransactionData :: AlexfAccountAbstractionTx

text \<open>
  \<open>core.ExecutionResult\<close>: the gas used, the value of \<open>Failed()\<close> and the
  return data.
\<close>

record ExecutionResult =
  UsedGas :: "64 word"
  Failed :: bool
  ReturnData :: "byte list"

record Log =
  log_Address :: Address
  log_Topics :: "Hash list"
  log_Data :: "byte list"

datatype ReceiptStatus = ReceiptStatusFailed | ReceiptStatusSuccessful

record Receipt =
  Type :: TxType
  PostState :: "byte list"
  Status :: ReceiptStatus
  CumulativeGasUsed :: "64 word"
  Bloom :: "byte list"
  Logs :: "Log list"
  TxHash :: Hash
  ContractAddress :: Address
  GasUsed :: "64 word"
  BlobGasUsed :: "64 word"
  BlobGasPrice :: "int option"
  BlockHash :: Hash
  BlockNumber :: "nat option"
  TransactionIndex :: nat

record ValidationPhaseResult =
  Tx :: "Transaction option"
  paymasterContext :: "byte list"
  validationGasUsed :: "64 word"
  paymasterGasUsed :: "64 word"

record Header =
  h_Number :: nat
  h_Time :: "64 word"
  h_Coinbase :: Address
  h_BaseFee :: "nat option"

text \<open>A block, as its accessors see it.\<close>

record Block =
  b_Header :: Header
  b_Hash :: Hash
  b_Number :: nat
  b_Time :: "64 word"
  b_GasLimit :: "64 word"
  b_Transactions :: "Transaction list"
  b_Uncles :: "Header list"
  b_Withdrawals :: "(Address \<times> 64 word) list"
  b_BeaconRoot :: "Hash option"

text \<open>\<open>vm.BlockContext\<close>, \<open>vm.TxContext\<close> and \<open>vm.EVM\<close>, with the fields read here.\<close>

record BlockContext =
  BlobBaseFee :: "int option"

record TxContext =
  Origin :: Address

record EVM =
  Context :: BlockContext
  TxContext :: TxContext

text \<open>\<open>vm.NewEVM\<close> stores the two contexts; \<open>evm.Reset\<close> replaces the second.\<close>

definition NewEVM :: "BlockContext \<Rightarrow> TxContext \<Rightarrow> EVM" where
  "NewEVM blockContext txContext = \<lparr>Context = blockContext, TxContext = txContext\<rparr>"

definition Reset :: "EVM \<Rightarrow> TxContext \<Rightarrow> EVM" where
  "Reset evm txContext = evm\<lparr>TxContext := txContext\<rparr>"

text \<open>\<open>params.ChainConfig\<close>, with the fields and fork predicates this file asks.\<close>

record ChainConfig =
  DAOForkSupport :: bool
  DAOForkBlock :: "nat option"
  IsByzantium :: "nat \<Rightarrow> bool"
  IsEIP158 :: "nat \<Rightarrow> bool"
  IsShanghai :: "nat \<Rightarrow> 64 word \<Rightarrow> bool"

subsection \<open>The external collaborators\<close>

text \<open>
  Everything this file calls and does not define is a parameter: the call-frame invoker
  \<open>core.ApplyMessage\<close> (acting on the gas pool and on the state database),
  \<open>TransactionToMessage\<close> (with the signer made from the header; it returns a
  message pointer and an error), \<open>NewEVMTxContext\<close> (\<open>None\<close> when it panics on
  the message it is given), \<open>NewEVMBlockContext\<close>, the methods of the state database,
  the consensus engine's \<open>Finalize\<close>, and the constants of package params.
  The type \<open>'s\<close> is the state database.
\<close>

record 's Externals =
  ext_ApplyMessage ::
    "EVM \<Rightarrow> Message \<Rightarrow> 64 word \<Rightarrow> 's \<Rightarrow> (error + ExecutionResult) \<times> 64 word \<times> 's"
  ext_TransactionToMessage :: "Transaction \<Rightarrow> Header \<Rightarrow> Message option \<times> error option"
  ext_NewEVMTxContext :: "Message option \<Rightarrow> TxContext option"
  ext_NewEVMBlockContext :: "Header \<Rightarrow> Address option \<Rightarrow> BlockContext"
  ext_ApplyDAOHardFork :: "'s \<Rightarrow> 's"
  ext_Call :: "EVM \<Rightarrow> Address \<Rightarrow> Address \<Rightarrow> byte list \<Rightarrow> 64 word \<Rightarrow> int \<Rightarrow> 's \<Rightarrow> 's"
  ext_AddAddressToAccessList :: "Address \<Rightarrow> 's \<Rightarrow> 's"
  ext_Finalise :: "bool \<Rightarrow> 's \<Rightarrow> 's"
  ext_IntermediateRoot :: "bool \<Rightarrow> 's \<Rightarrow> Hash \<times> 's"
  ext_SetTxContext :: "Hash \<Rightarrow> nat \<Rightarrow> 's \<Rightarrow> 's"
  ext_TxIndex :: "'s \<Rightarrow> nat"
  ext_GetLogs :: "Hash \<Rightarrow> 64 word \<Rightarrow> Hash \<Rightarrow> 's \<Rightarrow> Log list"
  ext_CreateBloom :: "Receipt list \<Rightarrow> byte list"
  ext_CreateAddress :: "Address \<Rightarrow> 64 word \<Rightarrow> Address"
  ext_EngineFinalize ::
    "Header \<Rightarrow> Transaction list \<Rightarrow> Header list \<Rightarrow> (Address \<times> 64 word) list \<Rightarrow> 's \<Rightarrow> 's"
  SystemAddress :: Address
  BeaconRootsStorageAddress :: Address
  BlobTxBlobGasPerBlob :: nat

subsection \<open>The mutable world and the log of call frames\<close>

text \<open>
  The six synthetic call frames of an AA transaction and the single frame of an ordinary
  transaction, named by the place in the source where \<open>ApplyMessage\<close> is called.
\<close>

datatype Frame = NonceManagerFrame | DeployerFrame | AccountValidationFrame
  | PaymasterValidationFrame | AccountExecutionFrame | PaymasterPostOpFrame
  | TransactionFrame

text \<open>
  The world threaded through block processing: the gas pool \<open>gp\<close>, the state database,
  and \<open>calls\<close>, a record of every call frame handed to \<open>ApplyMessage\<close> so far
  (call site, message, what the invoker returned). The record is an observer's log: no
  function below reads it.
\<close>

type_synonym Call = "Frame \<times> Message \<times> (error + ExecutionResult)"

record 's World =
  calls :: "Call list"
  gp :: "64 word"
  statedb :: 's

definition ApplyMessage ::
  "'s Externals \<Rightarrow> Frame \<Rightarrow> EVM \<Rightarrow> Message \<Rightarrow> 's World
    \<Rightarrow> (error + ExecutionResult) \<times> 's World" where
  "ApplyMessage ext site evm msg w =
     (case ext_ApplyMessage ext evm msg (gp w) (statedb w) of
        (r, gp', s') \<Rightarrow> (r, \<lparr>calls = calls w @ [(site, msg, r)], gp = gp', statedb = s'\<rparr>))"

section \<open>The two phases of an AA transaction\<close>

text \<open>
  The message literals of the five AA call frames that carry data differ only in the
  recipient and the payload: sender \<open>*aatx.Sender\<close>, value 0, gas limit 100000, the
  three prices 875000000, the transaction's access list, both flags set.
\<close>

definition aaFrameMsg :: "Address \<Rightarrow> Address \<Rightarrow> byte list \<Rightarrow> AccessList \<Rightarrow> Message" where
  "aaFrameMsg sender to payload accessList =
     \<lparr>From = sender, To = Some to, Value = Some 0, GasLimit = 100000,
      GasPrice = Some 875000000, GasFeeCap = Some 875000000, GasTipCap = Some 875000000,
      Data = payload, AccessList = accessList,
      SkipAccountChecks = True, IsInnerAATxFrame = True\<rparr>"

text \<open>
  Lines 151-161: the deployer call. The address is read from the first 20 bytes and
  compared with the zero address; the message applied is \<open>&Message{}\<close>.
\<close>

definition deployerCall ::
  "'s Externals \<Rightarrow> AlexfAccountAbstractionTx \<Rightarrow> EVM \<Rightarrow> 's World
    \<Rightarrow> error option \<times> 's World" where
  "deployerCall ext aatx evm w =
     (if 20 \<le> length (DeployerData aatx) then
        (let deployerAddress = take 20 (DeployerData aatx) in
         if deployerAddress \<noteq> zeroAddress then
           (let deployerMsg = emptyMessage in
            case ApplyMessage ext DeployerFrame evm deployerMsg w of
              (Inl err, w') \<Rightarrow> (Some err, w')
            | (Inr resultDeployer, w') \<Rightarrow> (None, w'))
         else (None, w))
      else (None, w))"

text \<open>Lines 184-210: the paymaster (sponsor) validation call.\<close>

definition paymasterCall ::
  "'s Externals \<Rightarrow> Address \<Rightarrow> AlexfAccountAbstractionTx \<Rightarrow> EVM \<Rightarrow> 's World
    \<Rightarrow> error option \<times> 's World" where
  "paymasterCall ext sender aatx evm w =
     (if 20 \<le> length (PaymasterData aatx) then
        (let paymasterAddress = take 20 (PaymasterData aatx);
             paymasterMsg = aaFrameMsg sender paymasterAddress
                 (drop 20 (PaymasterData aatx)) (aa_AccessList aatx) in
         case ApplyMessage ext PaymasterValidationFrame evm paymasterMsg w of
           (Inl err, w') \<Rightarrow> (Some err, w')
         | (Inr resultPm, w') \<Rightarrow>
             (if Failed resultPm
              then (Some (ErrorsNew ''paymaster validation failed - invalid transaction''), w')
              else (None, w')))
      else (None, w))"

text \<open>
  \<open>applyAlexfAATransactionValidationPhase\<close> (lines 131-219). Building the first
  message dereferences \<open>aatx.Sender\<close> and slices \<open>aatx.PaymasterData[20:]\<close>, which
  panics when the slice is shorter than 20 bytes. \<open>paymasterContext\<close> is declared and
  never assigned, so the result carries the nil slice.
\<close>

definition applyAlexfAATransactionValidationPhase ::
  "'s Externals \<Rightarrow> AlexfAccountAbstractionTx \<Rightarrow> EVM \<Rightarrow> 's World
    \<Rightarrow> ValidationPhaseResult result \<times> 's World" where
  "applyAlexfAATransactionValidationPhase ext aatx evm w =
     (case Sender aatx of
        None \<Rightarrow> (Panic NilPointerDereference, w)
      | Some sender \<Rightarrow>
        if length (PaymasterData aatx) < 20 then (Panic SliceBoundsOutOfRange, w)
        else
          (let nonceManagerMsg = aaFrameMsg sender zeroAddress
                  (drop 20 (PaymasterData aatx)) (aa_AccessList aatx) in
           case ApplyMessage ext NonceManagerFrame evm nonceManagerMsg w of
             (Inl err, w1) \<Rightarrow> (Err err, w1)
           | (Inr resultNonceManager, w1) \<Rightarrow>
             (case deployerCall ext aatx evm w1 of
                (Some err, w2) \<Rightarrow> (Err err, w2)
              | (None, w2) \<Rightarrow>
                (let validateTransactionData = [];
                     accountValidationMsg = aaFrameMsg sender sender
                        validateTransactionData (aa_AccessList aatx) in
                 case ApplyMessage ext AccountValidationFrame evm accountValidationMsg w2 of
                   (Inl err, w3) \<Rightarrow> (Err err, w3)
                 | (Inr resultAccountValidation, w3) \<Rightarrow>
                   (let paymasterContext = [] in
                    case paymasterCall ext sender aatx evm w3 of
                      (Some err, w4) \<Rightarrow> (Err err, w4)
                    | (None, w4) \<Rightarrow>
                        (Ok \<lparr>Tx = None, paymasterContext = paymasterContext,
                             validationGasUsed = 0, paymasterGasUsed = 0\<rparr>, w4))))))"

text \<open>
  Lines 246-265: the paymaster post-operation call, made when the context carried by the
  validation result is not empty. The address is \<open>aatx.PaymasterData[0:20]\<close>, which
  panics when fewer than 20 bytes are there (slice capacity is taken to be its length).
\<close>

definition postOpCall ::
  "'s Externals \<Rightarrow> ValidationPhaseResult \<Rightarrow> Address \<Rightarrow> AlexfAccountAbstractionTx \<Rightarrow> EVM
    \<Rightarrow> 's World \<Rightarrow> unit result \<times> 's World" where
  "postOpCall ext vpr sender aatx evm w =
     (if length (paymasterContext vpr) \<noteq> 0 then
        (if length (PaymasterData aatx) < 20 then (Panic SliceBoundsOutOfRange, w)
         else
           (let paymasterAddress = take 20 (PaymasterData aatx);
                paymasterPostOpMsg = aaFrameMsg sender paymasterAddress
                    (paymasterContext vpr) (aa_AccessList aatx) in
            case ApplyMessage ext PaymasterPostOpFrame evm paymasterPostOpMsg w of
              (Inl err, w') \<Rightarrow> (Err err, w')
            | (Inr resultPostOp, w') \<Rightarrow> (Ok (), w')))
      else (Ok (), w))"

text \<open>
  \<open>applyAlexfAATransactionExecutionPhase\<close> (lines 221-279). The receipt has the
  transaction's type, a nil post state, cumulative gas 0, the logs of the transaction and
  the status of the account's execution call; its other fields keep their zero values.
\<close>

definition applyAlexfAATransactionExecutionPhase ::
  "'s Externals \<Rightarrow> ValidationPhaseResult \<Rightarrow> EVM \<Rightarrow> 's World \<Rightarrow> nat \<Rightarrow> Hash
    \<Rightarrow> Receipt result \<times> 's World" where
  "applyAlexfAATransactionExecutionPhase ext vpr evm w blockNumber blockHash =
     (case Tx vpr of
        None \<Rightarrow> (Panic NilPointerDereference, w)
      | Some tx \<Rightarrow>
        (let aatx = tx_AlexfAATransactionData tx in
         case Sender aatx of
           None \<Rightarrow> (Panic NilPointerDereference, w)
         | Some sender \<Rightarrow>
           (let executionData = [];
                accountExecutionMsg = aaFrameMsg sender sender executionData
                    (aa_AccessList aatx) in
            case ApplyMessage ext AccountExecutionFrame evm accountExecutionMsg w of
              (Inl err, w1) \<Rightarrow> (Err err, w1)
            | (Inr result, w1) \<Rightarrow>
              (case postOpCall ext vpr sender aatx evm w1 of
                 (Panic p, w2) \<Rightarrow> (Panic p, w2)
               | (Err err, w2) \<Rightarrow> (Err err, w2)
               | (Ok u, w2) \<Rightarrow>
                 (let root = [];
                      receipt = \<lparr>Type = tx_Type tx, PostState = root,
                         Status = (if Failed result then ReceiptStatusFailed
                                   else ReceiptStatusSuccessful),
                         CumulativeGasUsed = 0, Bloom = replicate 256 0,
                         Logs = ext_GetLogs ext (tx_Hash tx) (of_nat blockNumber) blockHash
                                  (statedb w2),
                         TxHash = zeroHash, ContractAddress = zeroAddress, GasUsed = 0,
                         BlobGasUsed = 0, BlobGasPrice = None, BlockHash = zeroHash,
                         BlockNumber = None, TransactionIndex = 0\<rparr>
                  in (Ok receipt, w2))))))"

text \<open>
  \<open>ApplyAlexfAATransactionValidationPhase\<close> (lines 354-374). The error of
  \<open>TransactionToMessage\<close> is bound to \<open>err\<close> and then overwritten by the result of
  the inner phase without having been read; the message goes to \<open>NewEVMTxContext\<close>
  whatever that error was.
\<close>

definition ApplyAlexfAATransactionValidationPhase ::
  "'s Externals \<Rightarrow> ChainConfig \<Rightarrow> Address option \<Rightarrow> Header \<Rightarrow> Transaction \<Rightarrow> 's World
    \<Rightarrow> ValidationPhaseResult result \<times> 's World" where
  "ApplyAlexfAATransactionValidationPhase ext config author header tx w =
     (let aatx = tx_AlexfAATransactionData tx;
          blockContext = ext_NewEVMBlockContext ext header author in
      case ext_TransactionToMessage ext tx header of
        (message, err) \<Rightarrow>
          (case ext_NewEVMTxContext ext message of
             None \<Rightarrow> (Panic NilPointerDereference, w)
           | Some txContext \<Rightarrow>
             (let vmenv = Reset (NewEVM blockContext txContext) txContext in
              case applyAlexfAATransactionValidationPhase ext aatx vmenv w of
                (Panic p, w') \<Rightarrow> (Panic p, w')
              | (Err err, w') \<Rightarrow> (Err err, w')
              | (Ok vpr, w') \<Rightarrow> (Ok (vpr\<lparr>Tx := Some tx\<rparr>), w'))))"

text \<open>
  \<open>ApplyAlexfAATransactionExecutionPhase\<close> (lines 376-391). The error of
  \<open>TransactionToMessage\<close> is tested after the message has gone to
  \<open>NewEVMTxContext\<close>. The first statement logs \<open>vpr.Tx.Hash()\<close>.
\<close>

definition ApplyAlexfAATransactionExecutionPhase ::
  "'s Externals \<Rightarrow> ChainConfig \<Rightarrow> ValidationPhaseResult \<Rightarrow> nat \<Rightarrow> Hash \<Rightarrow> Address option
    \<Rightarrow> Header \<Rightarrow> 's World \<Rightarrow> Receipt result \<times> 's World" where
  "ApplyAlexfAATransactionExecutionPhase ext config vpr blockNumber blockHash author header w =
     (case Tx vpr of
        None \<Rightarrow> (Panic NilPointerDereference, w)
      | Some tx \<Rightarrow>
        (let blockContext = ext_NewEVMBlockContext ext header author in
         case ext_TransactionToMessage ext tx header of
           (message, err) \<Rightarrow>
             (case ext_NewEVMTxContext ext message of
                None \<Rightarrow> (Panic NilPointerDereference, w)
              | Some txContext \<Rightarrow>
                (let vmenv = Reset (NewEVM blockContext txContext) txContext in
                 case err of
                   Some e \<Rightarrow> (Err e, w)
                 | None \<Rightarrow>
                     applyAlexfAATransactionExecutionPhase ext vpr vmenv w
                       blockNumber blockHash))))"

section \<open>Ordinary transactions\<close>

text \<open>
  \<open>applyTransaction\<close> (lines 281-329). \<open>usedGas\<close> is a pointer to the block's
  running \<open>uint64\<close> counter: the new value is returned with the receipt, and so is the
  EVM, which \<open>evm.Reset\<close> changes. The addition wraps as \<open>uint64\<close> does.
\<close>

definition applyTransaction ::
  "'s Externals \<Rightarrow> Message \<Rightarrow> ChainConfig \<Rightarrow> 's World \<Rightarrow> nat \<Rightarrow> Hash \<Rightarrow> Transaction
    \<Rightarrow> 64 word \<Rightarrow> EVM \<Rightarrow> (Receipt \<times> 64 word \<times> EVM) result \<times> 's World" where
  "applyTransaction ext msg config w blockNumber blockHash tx usedGas evm =
     (case ext_NewEVMTxContext ext (Some msg) of
        None \<Rightarrow> (Panic NilPointerDereference, w)
      | Some txContext \<Rightarrow>
        (let evm1 = Reset evm txContext in
         case ApplyMessage ext TransactionFrame evm1 msg w of
           (Inl err, w1) \<Rightarrow> (Err err, w1)
         | (Inr result, w1) \<Rightarrow>
           (case (if IsByzantium config blockNumber
                  then ([], ext_Finalise ext True (statedb w1))
                  else ext_IntermediateRoot ext (IsEIP158 config blockNumber) (statedb w1)) of
              (root, s2) \<Rightarrow>
                (let w2 = w1\<lparr>statedb := s2\<rparr>;
                     usedGas' = usedGas + UsedGas result;
                     receipt1 = \<lparr>Type = tx_Type tx, PostState = root,
                        Status = (if Failed result then ReceiptStatusFailed
                                  else ReceiptStatusSuccessful),
                        CumulativeGasUsed = usedGas', Bloom = replicate 256 0, Logs = [],
                        TxHash = tx_Hash tx, ContractAddress = zeroAddress,
                        GasUsed = UsedGas result, BlobGasUsed = 0, BlobGasPrice = None,
                        BlockHash = zeroHash, BlockNumber = None, TransactionIndex = 0\<rparr>;
                     receipt2 = (if tx_Type tx = BlobTxType
                        then receipt1\<lparr>BlobGasUsed :=
                                 of_nat (length (tx_BlobHashes tx) * BlobTxBlobGasPerBlob ext),
                               BlobGasPrice := BlobBaseFee (Context evm1)\<rparr>
                        else receipt1);
                     receipt3 = (if To msg = None
                        then receipt2\<lparr>ContractAddress :=
                               ext_CreateAddress ext (Origin (TxContext evm1)) (tx_Nonce tx)\<rparr>
                        else receipt2);
                     receipt4 = receipt3\<lparr>Logs :=
                        ext_GetLogs ext (tx_Hash tx) (of_nat blockNumber) blockHash s2\<rparr>;
                     receipt = receipt4\<lparr>Bloom := ext_CreateBloom ext [receipt4],
                        BlockHash := blockHash, BlockNumber := Some blockNumber,
                        TransactionIndex := ext_TxIndex ext s2\<rparr>
                 in (Ok (receipt, usedGas', evm1), w2)))))"

text \<open>
  \<open>ApplyTransaction\<close> (lines 335-345). A nil message with a nil error would be
  dereferenced by \<open>applyTransaction\<close>.
\<close>

definition ApplyTransaction ::
  "'s Externals \<Rightarrow> ChainConfig \<Rightarrow> Address option \<Rightarrow> 's World \<Rightarrow> Header \<Rightarrow> Hash \<Rightarrow> Transaction
    \<Rightarrow> 64 word \<Rightarrow> (Receipt \<times> 64 word \<times> EVM) result \<times> 's World" where
  "ApplyTransaction ext config author w header headerHash tx usedGas =
     (case ext_TransactionToMessage ext tx header of
        (msg, Some err) \<Rightarrow> (Err err, w)
      | (None, None) \<Rightarrow> (Panic NilPointerDereference, w)
      | (Some msg, None) \<Rightarrow>
        (let blockContext = ext_NewEVMBlockContext ext header author in
         case ext_NewEVMTxContext ext (Some msg) of
           None \<Rightarrow> (Panic NilPointerDereference, w)
         | Some txContext \<Rightarrow>
             applyTransaction ext msg config w (h_Number header) headerHash tx usedGas
               (NewEVM blockContext txContext)))"

section \<open>The block orchestrator\<close>

text \<open>
  \<open>ProcessBeaconBlockRoot\<close> (lines 395-411). It does not go through
  \<open>ApplyMessage\<close> and takes no gas pool: the call is \<open>vmenv.Call\<close>, whose results
  are dropped.
\<close>

datatype 'a go = Returns 'a | Panics panic

definition ProcessBeaconBlockRoot ::
  "'s Externals \<Rightarrow> Hash \<Rightarrow> EVM \<Rightarrow> 's \<Rightarrow> (EVM \<times> 's) go" where
  "ProcessBeaconBlockRoot ext beaconRoot vmenv s =
     (let msg = \<lparr>From = SystemAddress ext, To = Some (BeaconRootsStorageAddress ext),
                 Value = None, GasLimit = 30000000, GasPrice = Some 0, GasFeeCap = Some 0,
                 GasTipCap = Some 0, Data = beaconRoot, AccessList = [],
                 SkipAccountChecks = False, IsInnerAATxFrame = False\<rparr> in
      case ext_NewEVMTxContext ext (Some msg) of
        None \<Rightarrow> Panics NilPointerDereference
      | Some txContext \<Rightarrow>
        (let vmenv1 = Reset vmenv txContext;
             s1 = ext_AddAddressToAccessList ext (BeaconRootsStorageAddress ext) s;
             s2 = ext_Call ext vmenv1 (From msg) (BeaconRootsStorageAddress ext) (Data msg)
                    30000000 0 s1;
             s3 = ext_Finalise ext True s2
         in Returns (vmenv1, s3)))"

text \<open>
  The first loop of \<open>Process\<close> (lines 85-94): the validation phase of every AA
  transaction, in block order, collecting the results.
\<close>

fun validationLoop ::
  "'s Externals \<Rightarrow> ChainConfig \<Rightarrow> Header \<Rightarrow> Transaction list \<Rightarrow> ValidationPhaseResult list
    \<Rightarrow> 's World \<Rightarrow> ValidationPhaseResult list result \<times> 's World" where
  "validationLoop ext config header [] verifiedAATransactions w =
     (Ok verifiedAATransactions, w)"
| "validationLoop ext config header (tx # txs) verifiedAATransactions w =
     (if tx_Type tx = ALEXF_AA_TX_TYPE then
        (case ApplyAlexfAATransactionValidationPhase ext config (Some (h_Coinbase header))
                header tx w of
           (Panic p, w') \<Rightarrow> (Panic p, w')
         | (Err err, w') \<Rightarrow> (Err err, w')
         | (Ok vpr, w') \<Rightarrow>
             validationLoop ext config header txs (verifiedAATransactions @ [vpr]) w')
      else validationLoop ext config header txs verifiedAATransactions w)"

text \<open>The second loop (lines 95-102): the execution phase of every validated one.\<close>

fun executionLoop ::
  "'s Externals \<Rightarrow> ChainConfig \<Rightarrow> nat \<Rightarrow> Hash \<Rightarrow> Header \<Rightarrow> ValidationPhaseResult list
    \<Rightarrow> Receipt list \<Rightarrow> Log list \<Rightarrow> 's World
    \<Rightarrow> (Receipt list \<times> Log list) result \<times> 's World" where
  "executionLoop ext config blockNumber blockHash header [] receipts allLogs w =
     (Ok (receipts, allLogs), w)"
| "executionLoop ext config blockNumber blockHash header (vpr # vprs) receipts allLogs w =
     (case ApplyAlexfAATransactionExecutionPhase ext config vpr blockNumber blockHash
             (Some (h_Coinbase header)) header w of
        (Panic p, w') \<Rightarrow> (Panic p, w')
      | (Err err, w') \<Rightarrow> (Err err, w')
      | (Ok receipt, w') \<Rightarrow>
          executionLoop ext config blockNumber blockHash header vprs
            (receipts @ [receipt]) (allLogs @ Logs receipt) w')"

text \<open>
  The third loop (lines 104-119): every other transaction, in block order, \<open>i\<close> being its
  index in the block. Errors are wrapped with the index and the hash.
\<close>

fun transactionLoop ::
  "'s Externals \<Rightarrow> ChainConfig \<Rightarrow> Header \<Rightarrow> nat \<Rightarrow> Hash \<Rightarrow> nat \<Rightarrow> Transaction list
    \<Rightarrow> Receipt list \<Rightarrow> Log list \<Rightarrow> 64 word \<Rightarrow> EVM \<Rightarrow> 's World
    \<Rightarrow> (Receipt list \<times> Log list \<times> 64 word) result \<times> 's World" where
  "transactionLoop ext config header blockNumber blockHash i [] receipts allLogs usedGas
      vmenv w = (Ok (receipts, allLogs, usedGas), w)"
| "transactionLoop ext config header blockNumber blockHash i (tx # txs) receipts allLogs
      usedGas vmenv w =
     (if tx_Type tx = ALEXF_AA_TX_TYPE then
        transactionLoop ext config header blockNumber blockHash (Suc i) txs receipts allLogs
          usedGas vmenv w
      else
        (case ext_TransactionToMessage ext tx header of
           (m, Some err) \<Rightarrow> (Err (CouldNotApplyTx i (tx_Hash tx) err), w)
         | (None, None) \<Rightarrow> (Panic NilPointerDereference, w)
         | (Some msg, None) \<Rightarrow>
           (let w1 = w\<lparr>statedb := ext_SetTxContext ext (tx_Hash tx) i (statedb w)\<rparr> in
            case applyTransaction ext msg config w1 blockNumber blockHash tx usedGas vmenv of
              (Panic p, w2) \<Rightarrow> (Panic p, w2)
            | (Err err, w2) \<Rightarrow> (Err (CouldNotApplyTx i (tx_Hash tx) err), w2)
            | (Ok (receipt, usedGas', vmenv'), w2) \<Rightarrow>
                transactionLoop ext config header blockNumber blockHash (Suc i) txs
                  (receipts @ [receipt]) (allLogs @ Logs receipt) usedGas' vmenv' w2)))"

text \<open>What \<open>Process\<close> returns: receipts, logs, gas used and the error.\<close>

record ProcessReturn =
  ret_receipts :: "Receipt list"
  ret_logs :: "Log list"
  ret_usedGas :: "64 word"
  ret_err :: "error option"

text \<open>\<open>return nil, nil, 0, err\<close>\<close>

definition failWith :: "error \<Rightarrow> ProcessReturn" where
  "failWith err = \<lparr>ret_receipts = [], ret_logs = [], ret_usedGas = 0, ret_err = Some err\<rparr>"

text \<open>
  \<open>Process\<close> (lines 61-129). The gas pool starts at the block's gas limit and the log
  of call frames starts empty. The result is paired with the world as processing left it.
\<close>

definition Process ::
  "'s Externals \<Rightarrow> ChainConfig \<Rightarrow> Block \<Rightarrow> 's \<Rightarrow> ProcessReturn go \<times> 's World" where
  "Process ext config block statedb0 =
     (let header = b_Header block;
          blockHash = b_Hash block;
          blockNumber = b_Number block;
          s1 = (if DAOForkSupport config \<and> DAOForkBlock config = Some (b_Number block)
                then ext_ApplyDAOHardFork ext statedb0 else statedb0);
          context = ext_NewEVMBlockContext ext header None;
          vmenv = NewEVM context \<lparr>Origin = zeroAddress\<rparr>
      in
      case (case b_BeaconRoot block of
              None \<Rightarrow> Returns (vmenv, s1)
            | Some beaconRoot \<Rightarrow> ProcessBeaconBlockRoot ext beaconRoot vmenv s1) of
        Panics p \<Rightarrow> (Panics p, \<lparr>calls = [], gp = b_GasLimit block, statedb = s1\<rparr>)
      | Returns (vmenv1, s2) \<Rightarrow>
        (let w1 = \<lparr>calls = [], gp = b_GasLimit block, statedb = s2\<rparr> in
         case validationLoop ext config header (b_Transactions block) [] w1 of
           (Panic p, w2) \<Rightarrow> (Panics p, w2)
         | (Err err, w2) \<Rightarrow> (Returns (failWith err), w2)
         | (Ok verifiedAATransactions, w2) \<Rightarrow>
           (case executionLoop ext config blockNumber blockHash header
                   verifiedAATransactions [] [] w2 of
              (Panic p, w3) \<Rightarrow> (Panics p, w3)
            | (Err err, w3) \<Rightarrow> (Returns (failWith err), w3)
            | (Ok (receipts, allLogs), w3) \<Rightarrow>
              (case transactionLoop ext config header blockNumber blockHash 0
                      (b_Transactions block) receipts allLogs 0 vmenv1 w3 of
                 (Panic p, w4) \<Rightarrow> (Panics p, w4)
               | (Err err, w4) \<Rightarrow> (Returns (failWith err), w4)
               | (Ok (receipts', allLogs', usedGas), w4) \<Rightarrow>
                 (let withdrawals = b_Withdrawals block in
                  if length withdrawals > 0
                     \<and> \<not> IsShanghai config (b_Number block) (b_Time block)
                  then (Returns (failWith (ErrorsNew ''withdrawals before shanghai'')), w4)
                  else
                    (let w5 = w4\<lparr>statedb := ext_EngineFinalize ext header
                                  (b_Transactions block) (b_Uncles block) withdrawals
                                  (statedb w4)\<rparr>
                     in (Returns \<lparr>ret_receipts = receipts', ret_logs = allLogs',
                                  ret_usedGas = usedGas, ret_err = None\<rparr>, w5)))))))"

section \<open>The authorization tuple of tests/gen\_stauthorization.go\<close>

text \<open>
  \<open>stAuthorization\<close> and the two local structs of the generated codec: the one
  \<open>MarshalJSON\<close> hands to \<open>json.Marshal\<close> and the one \<open>json.Unmarshal\<close>
  fills for \<open>UnmarshalJSON\<close>, in which every field is a pointer.
  \<open>math.HexOrDecimal256\<close> is \<open>big.Int\<close> and \<open>math.HexOrDecimal64\<close> is
  \<open>uint64\<close>; the conversions between them keep the value.
\<close>

record stAuthorization =
  auth_ChainID :: "int option"
  auth_Address :: Address
  auth_Nonce :: "64 word"
  auth_V :: "int option"
  auth_R :: "int option"
  auth_S :: "int option"


record stAuthorizationDec =
  dec_ChainID :: "int option"
  dec_Address :: "Address option"
  dec_Nonce :: "64 word option"
  dec_V :: "int option"
  dec_R :: "int option"
  dec_S :: "int option"


text \<open>
  \<open>UnmarshalJSON\<close> (lines 37-74). \<open>json.Unmarshal\<close> into the local struct is the
  parameter \<open>unmarshal\<close>. The receiver is written field by field, so on an error it
  keeps the fields assigned before the missing one; it is returned with the error.
\<close>

definition UnmarshalJSON ::
  "(string \<Rightarrow> error + stAuthorizationDec) \<Rightarrow> stAuthorization \<Rightarrow> string
    \<Rightarrow> error option \<times> stAuthorization" where
  "UnmarshalJSON unmarshal s input =
     (case unmarshal input of
        Inl err \<Rightarrow> (Some err, s)
      | Inr dec \<Rightarrow>
        (let s1 = (case dec_ChainID dec of
                     Some c \<Rightarrow> s\<lparr>auth_ChainID := Some c\<rparr>
                   | None \<Rightarrow> s) in
         case dec_Address dec of
           None \<Rightarrow>
             (Some (ErrorsNew ''missing required field 'address' for stAuthorization''), s1)
         | Some a \<Rightarrow>
           (let s2 = s1\<lparr>auth_Address := a\<rparr> in
            case dec_Nonce dec of
              None \<Rightarrow>
                (Some (ErrorsNew ''missing required field 'nonce' for stAuthorization''), s2)
            | Some n \<Rightarrow>
              (let s3 = s2\<lparr>auth_Nonce := n\<rparr> in
               case dec_V dec of
                 None \<Rightarrow>
                   (Some (ErrorsNew ''missing required field 'v' for stAuthorization''), s3)
               | Some v \<Rightarrow>
                 (let s4 = s3\<lparr>auth_V := Some v\<rparr> in
                  case dec_R dec of
                    None \<Rightarrow>
                      (Some (ErrorsNew ''missing required field 'r' for stAuthorization''), s4)
                  | Some r \<Rightarrow>
                    (let s5 = s4\<lparr>auth_R := Some r\<rparr> in
                     case dec_S dec of
                       None \<Rightarrow>
                         (Some (ErrorsNew ''missing required field 's' for stAuthorization''),
                          s5)
                     | Some sv \<Rightarrow> (None, s5\<lparr>auth_S := Some sv\<rparr>)))))))"


section \<open>Notions used to state the properties\<close>

text \<open>
  A logged call frame is a rejected sponsor validation when it was made at the paymaster
  validation call site and the invoker returned a result (no error) whose \<open>Failed()\<close>
  is true.
\<close>

fun isRejectedPaymasterCall :: "Call \<Rightarrow> bool" where
  "isRejectedPaymasterCall (site, msg, r) =
     (site = PaymasterValidationFrame \<and> (case r of Inl e \<Rightarrow> False | Inr res \<Rightarrow> Failed res))"

text \<open>The call frames logged between the world \<open>w\<close> and the later world \<open>w'\<close>.\<close>

definition newCalls :: "'s World \<Rightarrow> 's World \<Rightarrow> Call list" where
  "newCalls w w' = drop (length (calls w)) (calls w')"

text \<open>The error of line 208.\<close>

definition paymasterValidationFailed :: error where
  "paymasterValidationFailed = ErrorsNew ''paymaster validation failed - invalid transaction''"

text \<open>The call sites of the validation phase and those of the execution phase.\<close>

definition validationFrames :: "Frame set" where
  "validationFrames = {NonceManagerFrame, DeployerFrame, AccountValidationFrame,
     PaymasterValidationFrame}"

definition executionFrames :: "Frame set" where
  "executionFrames = {AccountExecutionFrame, PaymasterPostOpFrame}"

text \<open>
  The contract of the gas pool that the invoker is given: a call frame that returns a
  result has taken the gas it reports from the pool, so the pool holds at most what it
  held before minus that gas.
\<close>

definition gasPoolRespected :: "'s Externals \<Rightarrow> bool" where
  "gasPoolRespected ext =
     (\<forall>evm msg pool s res pool' s'.
        ext_ApplyMessage ext evm msg pool s = (Inr res, pool', s')
        \<longrightarrow> unat pool' + unat (UsedGas res) \<le> unat pool)"

text \<open>
  The part of \<open>Process\<close> before its loops (lines 71-82): the DAO fork, the EVM of the
  block and the beacon root call.
\<close>

definition preBlock :: "'s Externals \<Rightarrow> ChainConfig \<Rightarrow> Block \<Rightarrow> 's \<Rightarrow> (EVM \<times> 's) go" where
  "preBlock ext config block s0 =
     (case b_BeaconRoot block of
        None \<Rightarrow> Returns
          (NewEVM (ext_NewEVMBlockContext ext (b_Header block) None) \<lparr>Origin = zeroAddress\<rparr>,
           if DAOForkSupport config \<and> DAOForkBlock config = Some (b_Number block)
           then ext_ApplyDAOHardFork ext s0 else s0)
      | Some beaconRoot \<Rightarrow> ProcessBeaconBlockRoot ext beaconRoot
          (NewEVM (ext_NewEVMBlockContext ext (b_Header block) None) \<lparr>Origin = zeroAddress\<rparr>)
          (if DAOForkSupport config \<and> DAOForkBlock config = Some (b_Number block)
           then ext_ApplyDAOHardFork ext s0 else s0))"

section \<open>Stand-ins for the collaborators, for concrete runs\<close>

text \<open>
  A decoder standing in for \<open>json.Unmarshal\<close>: each letter of the input stands for
  a key present in the object (c, a, n, v, r, s), with the values of the example tuple
  chainId 1, address 0xAA..AA, nonce 5, v 1, r 2, s 3. The encoder standing in for
  \<open>json.Marshal\<close> knows that tuple only.
\<close>

definition testUnmarshal :: "string \<Rightarrow> error + stAuthorizationDec" where
  "testUnmarshal input =
     (if input = ''{malformed'' then Inl (ExternalError ''unexpected end of JSON input'')
      else Inr \<lparr>dec_ChainID = (if CHR ''c'' \<in> set input then Some 1 else None),
        dec_Address = (if CHR ''a'' \<in> set input then Some (replicate 20 0xAA) else None),
        dec_Nonce = (if CHR ''n'' \<in> set input then Some 5 else None),
        dec_V = (if CHR ''v'' \<in> set input then Some 1 else None),
        dec_R = (if CHR ''r'' \<in> set input then Some 2 else None),
        dec_S = (if CHR ''s'' \<in> set input then Some 3 else None)\<rparr>)"

definition testAuthorization :: stAuthorization where
  "testAuthorization = \<lparr>auth_ChainID = Some 1, auth_Address = replicate 20 0xAA,
     auth_Nonce = 5, auth_V = Some 1, auth_R = Some 2, auth_S = Some 3\<rparr>"


text \<open>
  Stand-ins for the collaborators of the state processor: an invoker that uses 21000 gas
  for every call frame while the pool has it, a signer that always yields a message, a
  state database without content, and a chain configuration before Shanghai.
\<close>

definition testInvoker ::
  "EVM \<Rightarrow> Message \<Rightarrow> 64 word \<Rightarrow> unit \<Rightarrow> (error + ExecutionResult) \<times> 64 word \<times> unit" where
  "testInvoker evm msg pool s =
     (if pool < 21000 then (Inl (ExternalError ''gas limit reached''), pool, s)
      else (Inr \<lparr>UsedGas = 21000, Failed = False, ReturnData = []\<rparr>, pool - 21000, s))"

definition testExt :: "unit Externals" where
  "testExt = \<lparr>ext_ApplyMessage = testInvoker,
     ext_TransactionToMessage = (\<lambda>tx header. (Some emptyMessage, None)),
     ext_NewEVMTxContext =
       (\<lambda>m. case m of None \<Rightarrow> None | Some msg \<Rightarrow> Some \<lparr>Origin = From msg\<rparr>),
     ext_NewEVMBlockContext = (\<lambda>header author. \<lparr>BlobBaseFee = None\<rparr>),
     ext_ApplyDAOHardFork = (\<lambda>s. s),
     ext_Call = (\<lambda>evm caller addr input gas value s. s),
     ext_AddAddressToAccessList = (\<lambda>addr s. s),
     ext_Finalise = (\<lambda>deleteEmptyObjects s. s),
     ext_IntermediateRoot = (\<lambda>deleteEmptyObjects s. (zeroHash, s)),
     ext_SetTxContext = (\<lambda>thash ti s. s),
     ext_TxIndex = (\<lambda>s. 0),
     ext_GetLogs = (\<lambda>thash blockNumber blockHash s. []),
     ext_CreateBloom = (\<lambda>receipts. replicate 256 0),
     ext_CreateAddress = (\<lambda>origin nonce. zeroAddress),
     ext_EngineFinalize = (\<lambda>header txs uncles withdrawals s. s),
     SystemAddress = replicate 19 0xFF @ [0xFE],
     BeaconRootsStorageAddress = replicate 20 0xBE,
     BlobTxBlobGasPerBlob = 131072\<rparr>"

definition testSender :: Address where "testSender = replicate 20 1"

definition testPaymaster :: Address where "testPaymaster = replicate 20 2"

definition testDeployer :: Address where "testDeployer = replicate 20 3"

definition testAATx :: AlexfAccountAbstractionTx where
  "testAATx = \<lparr>Sender = Some testSender, aa_AccessList = [],
     DeployerData = testDeployer @ [9], PaymasterData = testPaymaster @ [7, 8]\<rparr>"

definition testEVM :: EVM where
  "testEVM = \<lparr>Context = \<lparr>BlobBaseFee = None\<rparr>, TxContext = \<lparr>Origin = zeroAddress\<rparr>\<rparr>"

definition testWorld :: "unit World" where
  "testWorld = \<lparr>calls = [], gp = 30000000, statedb = ()\<rparr>"

definition testConfig :: ChainConfig where
  "testConfig = \<lparr>DAOForkSupport = False, DAOForkBlock = None, IsByzantium = (\<lambda>n. True),
     IsEIP158 = (\<lambda>n. True), IsShanghai = (\<lambda>n t. False)\<rparr>"

definition testHeader :: Header where
  "testHeader = \<lparr>h_Number = 1, h_Time = 0, h_Coinbase = zeroAddress, h_BaseFee = None\<rparr>"

definition aaTransaction :: "AlexfAccountAbstractionTx \<Rightarrow> Transaction" where
  "aaTransaction aatx = \<lparr>tx_Type = ALEXF_AA_TX_TYPE, tx_Hash = replicate 32 0xA1, tx_Nonce = 0,
     tx_BlobHashes = [], tx_AlexfAATransactionData = aatx\<rparr>"

definition legacyTransaction :: "byte \<Rightarrow> Transaction" where
  "legacyTransaction b = \<lparr>tx_Type = LegacyTxType, tx_Hash = replicate 32 b, tx_Nonce = 0,
     tx_BlobHashes = [],
     tx_AlexfAATransactionData = \<lparr>Sender = None, aa_AccessList = [], DeployerData = [],
       PaymasterData = []\<rparr>\<rparr>"

definition testBlock :: "Transaction list \<Rightarrow> Block" where
  "testBlock txs = \<lparr>b_Header = testHeader, b_Hash = replicate 32 0xB0, b_Number = 1,
     b_Time = 0, b_GasLimit = 30000000, b_Transactions = txs, b_Uncles = [],
     b_Withdrawals = [], b_BeaconRoot = None\<rparr>"

definition rejectingInvoker ::
  "EVM \<Rightarrow> Message \<Rightarrow> 64 word \<Rightarrow> unit \<Rightarrow> (error + ExecutionResult) \<times> 64 word \<times> unit" where
  "rejectingInvoker evm msg pool s =
     (Inr \<lparr>UsedGas = 21000, Failed = (To msg = Some testPaymaster), ReturnData = []\<rparr>,
      pool - 21000, s)"

definition failingInvoker ::
  "EVM \<Rightarrow> Message \<Rightarrow> 64 word \<Rightarrow> unit \<Rightarrow> (error + ExecutionResult) \<times> 64 word \<times> unit" where
  "failingInvoker evm msg pool s = (Inl (ExternalError ''insufficient funds for gas''), pool, s)"

definition withWithdrawals :: "Block \<Rightarrow> Block" where
  "withWithdrawals block = block\<lparr>b_Withdrawals := [(testSender, 1)]\<rparr>"

definition strictSigner :: "Transaction \<Rightarrow> Header \<Rightarrow> Message option \<times> error option" where
  "strictSigner tx header =
     (if tx_Hash tx = replicate 32 2 then (None, Some (ExternalError ''invalid sender''))
      else (Some emptyMessage, None))"

section \<open>The call frames of each phase\<close>

lemma ApplyMessage_calls:
  "ApplyMessage ext site evm msg w = (r, w') \<Longrightarrow> calls w' = calls w @ [(site, msg, r)]"
  by (auto simp: ApplyMessage_def split: prod.splits)

lemma deployerCall_calls:
  assumes "deployerCall ext aatx evm w = (e, w')"
  shows "\<exists>cs. calls w' = calls w @ cs \<and> (\<forall>c\<in>set cs. fst c = DeployerFrame)"
  using assms
  by (auto simp: deployerCall_def Let_def dest!: ApplyMessage_calls
      split: if_splits prod.splits sum.splits)

lemma paymasterCall_calls:
  assumes "paymasterCall ext sender aatx evm w = (e, w')"
  shows "\<exists>cs. calls w' = calls w @ cs \<and> (\<forall>c\<in>set cs. fst c = PaymasterValidationFrame)
           \<and> (list_ex isRejectedPaymasterCall cs \<longrightarrow> e = Some paymasterValidationFailed)"
  using assms
  by (auto simp: paymasterCall_def Let_def paymasterValidationFailed_def
      dest!: ApplyMessage_calls split: if_splits prod.splits sum.splits)

lemma inner_validation_calls:
  assumes "applyAlexfAATransactionValidationPhase ext aatx evm w = (res, w')"
  shows "\<exists>cs. calls w' = calls w @ cs \<and> (\<forall>c\<in>set cs. fst c \<in> validationFrames)
           \<and> (list_ex isRejectedPaymasterCall cs \<longrightarrow> res = Err paymasterValidationFailed)
           \<and> (\<forall>vpr. res = Ok vpr \<longrightarrow> paymasterContext vpr = [])"
proof (cases "Sender aatx")
  case None
  with assms show ?thesis by (auto simp: applyAlexfAATransactionValidationPhase_def)
next
  case (Some sender)
  show ?thesis
  proof (cases "length (PaymasterData aatx) < 20")
    case True
    with Some assms show ?thesis by (auto simp: applyAlexfAATransactionValidationPhase_def)
  next
    case False
    let ?m1 = "aaFrameMsg sender zeroAddress (drop 20 (PaymasterData aatx)) (aa_AccessList aatx)"
    obtain r1 w1 where a1: "ApplyMessage ext NonceManagerFrame evm ?m1 w = (r1, w1)"
      by (cases "ApplyMessage ext NonceManagerFrame evm ?m1 w") auto
    note c1 = ApplyMessage_calls [OF a1]
    show ?thesis
    proof (cases r1)
      case (Inl e)
      with Some False a1 assms c1 show ?thesis
        by (auto simp: applyAlexfAATransactionValidationPhase_def Let_def validationFrames_def)
    next
      case (Inr x1)
      obtain e2 w2 where a2: "deployerCall ext aatx evm w1 = (e2, w2)"
        by (cases "deployerCall ext aatx evm w1") auto
      from deployerCall_calls [OF a2] obtain cs2 where
        c2: "calls w2 = calls w1 @ cs2" "\<forall>c\<in>set cs2. fst c = DeployerFrame" by blast
      show ?thesis
      proof (cases e2)
        case (Some e)
        with \<open>Sender aatx = Some sender\<close> False a1 Inr a2 assms c1 c2 show ?thesis
          by (auto simp: applyAlexfAATransactionValidationPhase_def Let_def validationFrames_def
              list_ex_iff)
      next
        case None
        let ?m3 = "aaFrameMsg sender sender [] (aa_AccessList aatx)"
        obtain r3 w3 where a3: "ApplyMessage ext AccountValidationFrame evm ?m3 w2 = (r3, w3)"
          by (cases "ApplyMessage ext AccountValidationFrame evm ?m3 w2") auto
        note c3 = ApplyMessage_calls [OF a3]
        show ?thesis
        proof (cases r3)
          case (Inl e)
          with \<open>Sender aatx = Some sender\<close> False a1 \<open>r1 = Inr x1\<close> a2 None a3 assms c1 c2 c3
          show ?thesis
            by (auto simp: applyAlexfAATransactionValidationPhase_def Let_def
                validationFrames_def list_ex_iff)
        next
          case (Inr x3)
          obtain e4 w4 where a4: "paymasterCall ext sender aatx evm w3 = (e4, w4)"
            by (cases "paymasterCall ext sender aatx evm w3") auto
          from paymasterCall_calls [OF a4] obtain cs4 where
            c4: "calls w4 = calls w3 @ cs4" "\<forall>c\<in>set cs4. fst c = PaymasterValidationFrame"
              "list_ex isRejectedPaymasterCall cs4 \<longrightarrow> e4 = Some paymasterValidationFailed"
            by blast
          have res: "(res, w') = (case e4 of Some err \<Rightarrow> (Err err, w4)
              | None \<Rightarrow> (Ok \<lparr>Tx = None, paymasterContext = [], validationGasUsed = 0,
                    paymasterGasUsed = 0\<rparr>, w4))"
            using \<open>Sender aatx = Some sender\<close> False a1 \<open>r1 = Inr x1\<close> a2 None a3 Inr a4 assms
            by (simp add: applyAlexfAATransactionValidationPhase_def Let_def)
          have w': "calls w' = calls w @ ((NonceManagerFrame, ?m1, r1) # cs2
                       @ (AccountValidationFrame, ?m3, r3) # cs4)"
            using res c1 c2 c3 c4 by (auto split: option.splits)
          have rej: "list_ex isRejectedPaymasterCall ((NonceManagerFrame, ?m1, r1) # cs2
                       @ (AccountValidationFrame, ?m3, r3) # cs4)
                     \<Longrightarrow> list_ex isRejectedPaymasterCall cs4"
            using c2 by (auto simp: list_ex_iff)
          show ?thesis
            apply (rule exI [of _ "(NonceManagerFrame, ?m1, r1) # cs2
                       @ (AccountValidationFrame, ?m3, r3) # cs4"])
            using w' rej c2 c4 res
            by (auto simp: validationFrames_def split: option.splits)
        qed
      qed
    qed
  qed
qed

lemma validation_calls:
  assumes "ApplyAlexfAATransactionValidationPhase ext config author header tx w = (res, w')"
  shows "\<exists>cs. calls w' = calls w @ cs \<and> (\<forall>c\<in>set cs. fst c \<in> validationFrames)
           \<and> (list_ex isRejectedPaymasterCall cs \<longrightarrow> res = Err paymasterValidationFailed)
           \<and> (\<forall>vpr. res = Ok vpr \<longrightarrow> Tx vpr = Some tx \<and> paymasterContext vpr = [])"
proof (cases "ext_NewEVMTxContext ext (fst (ext_TransactionToMessage ext tx header))")
  case None
  with assms show ?thesis
    by (auto simp: ApplyAlexfAATransactionValidationPhase_def Let_def split: prod.splits)
next
  case (Some txContext)
  let ?evm = "Reset (NewEVM (ext_NewEVMBlockContext ext header author) txContext) txContext"
  obtain r0 w0 where i: "applyAlexfAATransactionValidationPhase ext
      (tx_AlexfAATransactionData tx) ?evm w = (r0, w0)"
    by (cases "applyAlexfAATransactionValidationPhase ext (tx_AlexfAATransactionData tx) ?evm w")
      auto
  from inner_validation_calls [OF i] obtain cs where
    cs: "calls w0 = calls w @ cs" "\<forall>c\<in>set cs. fst c \<in> validationFrames"
      "list_ex isRejectedPaymasterCall cs \<longrightarrow> r0 = Err paymasterValidationFailed"
      "\<forall>vpr. r0 = Ok vpr \<longrightarrow> paymasterContext vpr = []" by blast
  have "w' = w0" and "res = (case r0 of Panic p \<Rightarrow> Panic p | Err e \<Rightarrow> Err e
      | Ok vpr \<Rightarrow> Ok (vpr\<lparr>Tx := Some tx\<rparr>))"
    using assms Some i
    by (auto simp: ApplyAlexfAATransactionValidationPhase_def Let_def
        split: prod.splits result.splits)
  with cs show ?thesis by (auto split: result.splits)
qed

lemma postOpCall_calls:
  assumes "postOpCall ext vpr sender aatx evm w = (res, w')"
  shows "\<exists>cs. calls w' = calls w @ cs \<and> (\<forall>c\<in>set cs. fst c = PaymasterPostOpFrame)
           \<and> (paymasterContext vpr = [] \<longrightarrow> cs = [])"
  using assms
  by (auto simp: postOpCall_def Let_def dest!: ApplyMessage_calls
      split: if_splits prod.splits sum.splits)

lemma inner_execution_calls:
  assumes "applyAlexfAATransactionExecutionPhase ext vpr evm w blockNumber blockHash = (res, w')"
  shows "\<exists>cs. calls w' = calls w @ cs \<and> (\<forall>c\<in>set cs. fst c \<in> executionFrames)
           \<and> (paymasterContext vpr = [] \<longrightarrow> (\<forall>c\<in>set cs. fst c = AccountExecutionFrame))
           \<and> (\<forall>receipt. res = Ok receipt \<longrightarrow>
                  Some (Type receipt) = map_option tx_Type (Tx vpr)
                  \<and> CumulativeGasUsed receipt = 0)"
proof (cases "Tx vpr")
  case None
  with assms show ?thesis by (auto simp: applyAlexfAATransactionExecutionPhase_def)
next
  case (Some tx)
  show ?thesis
  proof (cases "Sender (tx_AlexfAATransactionData tx)")
    case None
    with Some assms show ?thesis
      by (auto simp: applyAlexfAATransactionExecutionPhase_def Let_def)
  next
    case (Some sender)
    let ?aatx = "tx_AlexfAATransactionData tx"
    let ?m = "aaFrameMsg sender sender [] (aa_AccessList ?aatx)"
    obtain r1 w1 where a1: "ApplyMessage ext AccountExecutionFrame evm ?m w = (r1, w1)"
      by (cases "ApplyMessage ext AccountExecutionFrame evm ?m w") auto
    note c1 = ApplyMessage_calls [OF a1]
    show ?thesis
    proof (cases r1)
      case (Inl e)
      with \<open>Tx vpr = Some tx\<close> Some a1 assms c1 show ?thesis
        by (auto simp: applyAlexfAATransactionExecutionPhase_def Let_def executionFrames_def)
    next
      case (Inr result)
      obtain r2 w2 where a2: "postOpCall ext vpr sender ?aatx evm w1 = (r2, w2)"
        by (cases "postOpCall ext vpr sender ?aatx evm w1") auto
      from postOpCall_calls [OF a2] obtain cs2 where
        c2: "calls w2 = calls w1 @ cs2" "\<forall>c\<in>set cs2. fst c = PaymasterPostOpFrame"
          "paymasterContext vpr = [] \<longrightarrow> cs2 = []" by blast
      have "w' = w2"
        and "\<forall>receipt. res = Ok receipt \<longrightarrow> Type receipt = tx_Type tx
                 \<and> CumulativeGasUsed receipt = 0"
        using \<open>Tx vpr = Some tx\<close> Some a1 Inr a2 assms
        by (auto simp: applyAlexfAATransactionExecutionPhase_def Let_def
            split: result.splits)
      with c1 c2 \<open>Tx vpr = Some tx\<close> show ?thesis
        by (auto simp: executionFrames_def)
    qed
  qed
qed

lemma execution_calls:
  assumes "ApplyAlexfAATransactionExecutionPhase ext config vpr blockNumber blockHash author
      header w = (res, w')"
  shows "\<exists>cs. calls w' = calls w @ cs \<and> (\<forall>c\<in>set cs. fst c \<in> executionFrames)
           \<and> (paymasterContext vpr = [] \<longrightarrow> (\<forall>c\<in>set cs. fst c = AccountExecutionFrame))
           \<and> (\<forall>receipt. res = Ok receipt \<longrightarrow>
                  Some (Type receipt) = map_option tx_Type (Tx vpr)
                  \<and> CumulativeGasUsed receipt = 0)"
proof (cases "Tx vpr")
  case None
  with assms show ?thesis by (auto simp: ApplyAlexfAATransactionExecutionPhase_def)
next
  case (Some tx)
  show ?thesis
  proof (cases "ext_NewEVMTxContext ext (fst (ext_TransactionToMessage ext tx header))")
    case None
    with Some assms show ?thesis
      by (auto simp: ApplyAlexfAATransactionExecutionPhase_def Let_def split: prod.splits)
  next
    case (Some txContext)
    show ?thesis
    proof (cases "snd (ext_TransactionToMessage ext tx header)")
      case (Some e)
      with \<open>Tx vpr = Some tx\<close> \<open>ext_NewEVMTxContext ext _ = Some txContext\<close> assms show ?thesis
        by (auto simp: ApplyAlexfAATransactionExecutionPhase_def Let_def split: prod.splits)
    next
      case None
      with \<open>Tx vpr = Some tx\<close> \<open>ext_NewEVMTxContext ext _ = Some txContext\<close> assms
      have "applyAlexfAATransactionExecutionPhase ext vpr
          (Reset (NewEVM (ext_NewEVMBlockContext ext header author) txContext) txContext)
          w blockNumber blockHash = (res, w')"
        by (auto simp: ApplyAlexfAATransactionExecutionPhase_def Let_def split: prod.splits)
      from inner_execution_calls [OF this] show ?thesis .
    qed
  qed
qed

lemma applyTransaction_calls:
  assumes "applyTransaction ext msg config w blockNumber blockHash tx usedGas evm = (res, w')"
  shows "\<exists>cs. calls w' = calls w @ cs \<and> (\<forall>c\<in>set cs. fst c = TransactionFrame)"
  using assms
  by (auto simp: applyTransaction_def Let_def dest!: ApplyMessage_calls
      split: option.splits prod.splits sum.splits if_splits)

lemma applyTransaction_receipt:
  assumes "applyTransaction ext msg config w blockNumber blockHash tx usedGas evm
             = (Ok (receipt, usedGas', evm'), w')"
  shows "Type receipt = tx_Type tx \<and> CumulativeGasUsed receipt = usedGas'"
  using assms
  by (auto simp: applyTransaction_def Let_def
      split: option.splits prod.splits sum.splits if_splits)

lemma applyTransaction_gas:
  assumes "applyTransaction ext msg config w blockNumber blockHash tx usedGas evm
             = (Ok (receipt, usedGas', evm'), w')"
    and "gasPoolRespected ext"
    and "unat usedGas + unat (gp w) < 2 ^ 64"
  shows "usedGas \<le> usedGas' \<and> unat usedGas' + unat (gp w') < 2 ^ 64"
proof -
  from assms(1) obtain txContext result pool' s' where
    am: "ext_ApplyMessage ext (Reset evm txContext) msg (gp w) (statedb w)
           = (Inr result, pool', s')"
    and u: "usedGas' = usedGas + UsedGas result" and g: "gp w' = pool'"
    by (auto simp: applyTransaction_def Let_def ApplyMessage_def
        split: option.splits prod.splits sum.splits if_splits)
  from am assms(2) have le: "unat pool' + unat (UsedGas result) \<le> unat (gp w)"
    unfolding gasPoolRespected_def by blast
  with assms(3) have nowrap: "unat usedGas + unat (UsedGas result) < 2 ^ 64" by simp
  then have un: "unat usedGas' = unat usedGas + unat (UsedGas result)"
    unfolding u by (simp add: unat_add_lem [THEN iffD1])
  then have "usedGas \<le> usedGas'" by (simp add: word_le_nat_alt)
  moreover from un le assms(3) g have "unat usedGas' + unat (gp w') < 2 ^ 64" by simp
  ultimately show ?thesis by simp
qed

section \<open>The three loops of Process\<close>

lemma validationLoop_calls:
  assumes "validationLoop ext config header txs acc w = (res, w')"
  shows "\<exists>cs. calls w' = calls w @ cs \<and> (\<forall>c\<in>set cs. fst c \<in> validationFrames)
           \<and> (list_ex isRejectedPaymasterCall cs \<longrightarrow> res = Err paymasterValidationFailed)"
  using assms
proof (induction txs arbitrary: acc w)
  case Nil
  then show ?case by auto
next
  case (Cons tx txs)
  show ?case
  proof (cases "tx_Type tx = ALEXF_AA_TX_TYPE")
    case False
    with Cons show ?thesis by simp
  next
    case True
    obtain r1 w1 where v: "ApplyAlexfAATransactionValidationPhase ext config
        (Some (h_Coinbase header)) header tx w = (r1, w1)"
      by (cases "ApplyAlexfAATransactionValidationPhase ext config
        (Some (h_Coinbase header)) header tx w") auto
    from validation_calls [OF v] obtain cs1 where
      c1: "calls w1 = calls w @ cs1" "\<forall>c\<in>set cs1. fst c \<in> validationFrames"
        "list_ex isRejectedPaymasterCall cs1 \<longrightarrow> r1 = Err paymasterValidationFailed"
      by blast
    show ?thesis
    proof (cases r1)
      case (Ok vpr)
      with True v Cons.prems
      have "validationLoop ext config header txs (acc @ [vpr]) w1 = (res, w')" by simp
      from Cons.IH [OF this] obtain cs2 where
        c2: "calls w' = calls w1 @ cs2" "\<forall>c\<in>set cs2. fst c \<in> validationFrames"
          "list_ex isRejectedPaymasterCall cs2 \<longrightarrow> res = Err paymasterValidationFailed"
        by blast
      from c1 Ok have "\<not> list_ex isRejectedPaymasterCall cs1" by auto
      with c1 c2 show ?thesis
        by (intro exI [of _ "cs1 @ cs2"]) (auto simp: list_ex_iff)
    next
      case (Err e)
      with True v Cons.prems have "res = Err e" "w' = w1" by auto
      with c1 Err show ?thesis by auto
    next
      case (Panic p)
      with True v Cons.prems have "res = Panic p" "w' = w1" by auto
      with c1 Panic show ?thesis by auto
    qed
  qed
qed

lemma validationLoop_results:
  assumes "validationLoop ext config header txs acc w = (Ok vprs, w')"
    and "\<forall>v\<in>set acc. paymasterContext v = [] \<and> map_option tx_Type (Tx v) = Some ALEXF_AA_TX_TYPE"
  shows "\<forall>v\<in>set vprs. paymasterContext v = []
           \<and> map_option tx_Type (Tx v) = Some ALEXF_AA_TX_TYPE"
  using assms
proof (induction txs arbitrary: acc w)
  case Nil
  then show ?case by auto
next
  case (Cons tx txs)
  show ?case
  proof (cases "tx_Type tx = ALEXF_AA_TX_TYPE")
    case False
    with Cons show ?thesis by simp
  next
    case True
    obtain r1 w1 where v: "ApplyAlexfAATransactionValidationPhase ext config
        (Some (h_Coinbase header)) header tx w = (r1, w1)"
      by (cases "ApplyAlexfAATransactionValidationPhase ext config
        (Some (h_Coinbase header)) header tx w") auto
    with True Cons.prems(1) obtain vpr where ok: "r1 = Ok vpr"
      and rest: "validationLoop ext config header txs (acc @ [vpr]) w1 = (Ok vprs, w')"
      by (cases r1) auto
    from validation_calls [OF v] ok True
    have "paymasterContext vpr = [] \<and> map_option tx_Type (Tx vpr) = Some ALEXF_AA_TX_TYPE"
      by auto
    with Cons.prems(2) have "\<forall>v\<in>set (acc @ [vpr]). paymasterContext v = []
           \<and> map_option tx_Type (Tx v) = Some ALEXF_AA_TX_TYPE" by auto
    from Cons.IH [OF rest this] show ?thesis .
  qed
qed


lemma executionLoop_calls:
  assumes "executionLoop ext config blockNumber blockHash header vprs receipts allLogs w
             = (res, w')"
  shows "\<exists>cs. calls w' = calls w @ cs \<and> (\<forall>c\<in>set cs. fst c \<in> executionFrames)
           \<and> ((\<forall>v\<in>set vprs. paymasterContext v = [])
                \<longrightarrow> (\<forall>c\<in>set cs. fst c = AccountExecutionFrame))"
  using assms
proof (induction vprs arbitrary: receipts allLogs w)
  case Nil
  then show ?case by auto
next
  case (Cons vpr vprs)
  obtain r1 w1 where x: "ApplyAlexfAATransactionExecutionPhase ext config vpr blockNumber
      blockHash (Some (h_Coinbase header)) header w = (r1, w1)"
    by (cases "ApplyAlexfAATransactionExecutionPhase ext config vpr blockNumber
      blockHash (Some (h_Coinbase header)) header w") auto
  from execution_calls [OF x] obtain cs1 where
    c1: "calls w1 = calls w @ cs1" "\<forall>c\<in>set cs1. fst c \<in> executionFrames"
      "paymasterContext vpr = [] \<longrightarrow> (\<forall>c\<in>set cs1. fst c = AccountExecutionFrame)"
    by blast
  show ?case
  proof (cases r1)
    case (Ok receipt)
    with x Cons.prems
    have "executionLoop ext config blockNumber blockHash header vprs (receipts @ [receipt])
        (allLogs @ Logs receipt) w1 = (res, w')" by simp
    from Cons.IH [OF this] obtain cs2 where
      c2: "calls w' = calls w1 @ cs2" "\<forall>c\<in>set cs2. fst c \<in> executionFrames"
        "(\<forall>v\<in>set vprs. paymasterContext v = [])
                \<longrightarrow> (\<forall>c\<in>set cs2. fst c = AccountExecutionFrame)"
      by blast
    with c1 show ?thesis by (intro exI [of _ "cs1 @ cs2"]) auto
  next
    case (Err e)
    with x Cons.prems have "w' = w1" by auto
    with c1 show ?thesis by auto
  next
    case (Panic p)
    with x Cons.prems have "w' = w1" by auto
    with c1 show ?thesis by auto
  qed
qed

lemma executionLoop_receipts:
  assumes "executionLoop ext config blockNumber blockHash header vprs receipts allLogs w
             = (Ok (rs, ls), w')"
    and "\<forall>v\<in>set vprs. map_option tx_Type (Tx v) = Some ALEXF_AA_TX_TYPE"
    and "\<forall>r\<in>set receipts. Type r = ALEXF_AA_TX_TYPE"
  shows "\<forall>r\<in>set rs. Type r = ALEXF_AA_TX_TYPE"
  using assms
proof (induction vprs arbitrary: receipts allLogs w)
  case Nil
  then show ?case by auto
next
  case (Cons vpr vprs)
  obtain r1 w1 where x: "ApplyAlexfAATransactionExecutionPhase ext config vpr blockNumber
      blockHash (Some (h_Coinbase header)) header w = (r1, w1)"
    by (cases "ApplyAlexfAATransactionExecutionPhase ext config vpr blockNumber
      blockHash (Some (h_Coinbase header)) header w") auto
  with Cons.prems(1) obtain receipt where ok: "r1 = Ok receipt"
    and rest: "executionLoop ext config blockNumber blockHash header vprs
        (receipts @ [receipt]) (allLogs @ Logs receipt) w1 = (Ok (rs, ls), w')"
    by (cases r1) auto
  from execution_calls [OF x] ok Cons.prems(2) have "Type receipt = ALEXF_AA_TX_TYPE"
    by auto
  with Cons.prems(3) have "\<forall>r\<in>set (receipts @ [receipt]). Type r = ALEXF_AA_TX_TYPE" by auto
  with Cons.IH [OF rest] Cons.prems(2) show ?case by auto
qed


text \<open>One step of the third loop, for a transaction that is not an AA transaction.\<close>

lemma transactionLoop_step:
  assumes "tx_Type tx \<noteq> ALEXF_AA_TX_TYPE"
    and "transactionLoop ext config header blockNumber blockHash i (tx # txs) receipts
           allLogs usedGas vmenv w = (res, w')"
  shows "(\<exists>m err. ext_TransactionToMessage ext tx header = (m, Some err)
            \<and> res = Err (CouldNotApplyTx i (tx_Hash tx) err) \<and> w' = w)
       \<or> (ext_TransactionToMessage ext tx header = (None, None)
            \<and> res = Panic NilPointerDereference \<and> w' = w)
       \<or> (\<exists>msg r1 w1. ext_TransactionToMessage ext tx header = (Some msg, None)
            \<and> applyTransaction ext msg config
                 (w\<lparr>statedb := ext_SetTxContext ext (tx_Hash tx) i (statedb w)\<rparr>)
                 blockNumber blockHash tx usedGas vmenv = (r1, w1)
            \<and> (case r1 of
                  Panic p \<Rightarrow> res = Panic p \<and> w' = w1
                | Err err \<Rightarrow> res = Err (CouldNotApplyTx i (tx_Hash tx) err) \<and> w' = w1
                | Ok (receipt, usedGas', vmenv') \<Rightarrow>
                    transactionLoop ext config header blockNumber blockHash (Suc i) txs
                      (receipts @ [receipt]) (allLogs @ Logs receipt) usedGas' vmenv' w1
                    = (res, w')))"
  using assms
  by (auto simp: Let_def split: prod.splits option.splits result.splits)

lemma transactionLoop_calls:
  assumes "transactionLoop ext config header blockNumber blockHash i txs receipts allLogs
             usedGas vmenv w = (res, w')"
  shows "\<exists>cs. calls w' = calls w @ cs \<and> (\<forall>c\<in>set cs. fst c = TransactionFrame)"
  using assms
proof (induction txs arbitrary: i receipts allLogs usedGas vmenv w)
  case Nil
  then show ?case by auto
next
  case (Cons tx txs)
  show ?case
  proof (cases "tx_Type tx = ALEXF_AA_TX_TYPE")
    case True
    with Cons show ?thesis by simp
  next
    case False
    from transactionLoop_step [OF False Cons.prems] show ?thesis
    proof (elim disjE exE conjE)
      fix msg r1 w1
      assume a: "applyTransaction ext msg config
                 (w\<lparr>statedb := ext_SetTxContext ext (tx_Hash tx) i (statedb w)\<rparr>)
                 blockNumber blockHash tx usedGas vmenv = (r1, w1)"
        and c: "case r1 of
                  Panic p \<Rightarrow> res = Panic p \<and> w' = w1
                | Err err \<Rightarrow> res = Err (CouldNotApplyTx i (tx_Hash tx) err) \<and> w' = w1
                | Ok (receipt, usedGas', vmenv') \<Rightarrow>
                    transactionLoop ext config header blockNumber blockHash (Suc i) txs
                      (receipts @ [receipt]) (allLogs @ Logs receipt) usedGas' vmenv' w1
                    = (res, w')"
      from applyTransaction_calls [OF a] obtain cs1 where
        c1: "calls w1 = calls w @ cs1" "\<forall>c\<in>set cs1. fst c = TransactionFrame" by auto
      show ?thesis
      proof (cases r1)
        case (Ok t)
        obtain receipt usedGas' vmenv' where t: "t = (receipt, usedGas', vmenv')"
          by (cases t) auto
        with Ok c have "transactionLoop ext config header blockNumber blockHash (Suc i) txs
            (receipts @ [receipt]) (allLogs @ Logs receipt) usedGas' vmenv' w1 = (res, w')"
          by simp
        from Cons.IH [OF this] obtain cs2 where
          "calls w' = calls w1 @ cs2" "\<forall>c\<in>set cs2. fst c = TransactionFrame" by auto
        with c1 show ?thesis by (intro exI [of _ "cs1 @ cs2"]) auto
      next
        case (Err e)
        with c c1 show ?thesis by auto
      next
        case (Panic p)
        with c c1 show ?thesis by auto
      qed
    qed auto
  qed
qed


lemma transactionLoop_receipts:
  assumes "transactionLoop ext config header blockNumber blockHash i txs receipts allLogs
             usedGas vmenv w = (Ok (rs, ls, g), w')"
  shows "\<exists>new. rs = receipts @ new \<and> (\<forall>r\<in>set new. Type r \<noteq> ALEXF_AA_TX_TYPE)
           \<and> (if new = [] then g = usedGas else CumulativeGasUsed (last new) = g)
           \<and> (gasPoolRespected ext \<longrightarrow> unat usedGas + unat (gp w) < 2 ^ 64
                \<longrightarrow> sorted (map CumulativeGasUsed new)
                    \<and> (\<forall>r\<in>set new. usedGas \<le> CumulativeGasUsed r))"
  using assms
proof (induction txs arbitrary: i receipts allLogs usedGas vmenv w)
  case Nil
  then show ?case by auto
next
  case (Cons tx txs)
  show ?case
  proof (cases "tx_Type tx = ALEXF_AA_TX_TYPE")
    case True
    with Cons.prems have "transactionLoop ext config header blockNumber blockHash (Suc i) txs
        receipts allLogs usedGas vmenv w = (Ok (rs, ls, g), w')" by simp
    from Cons.IH [OF this] show ?thesis .
  next
    case False
    from transactionLoop_step [OF False Cons.prems] obtain msg r1 w1 where
      a: "applyTransaction ext msg config
                 (w\<lparr>statedb := ext_SetTxContext ext (tx_Hash tx) i (statedb w)\<rparr>)
                 blockNumber blockHash tx usedGas vmenv = (r1, w1)"
      and c: "case r1 of
                  Panic p \<Rightarrow> Ok (rs, ls, g) = Panic p \<and> w' = w1
                | Err err \<Rightarrow> Ok (rs, ls, g) = Err (CouldNotApplyTx i (tx_Hash tx) err)
                    \<and> w' = w1
                | Ok (receipt, usedGas', vmenv') \<Rightarrow>
                    transactionLoop ext config header blockNumber blockHash (Suc i) txs
                      (receipts @ [receipt]) (allLogs @ Logs receipt) usedGas' vmenv' w1
                    = (Ok (rs, ls, g), w')"
      by auto
    from c obtain receipt usedGas' vmenv' where ok: "r1 = Ok (receipt, usedGas', vmenv')"
      and rest: "transactionLoop ext config header blockNumber blockHash (Suc i) txs
            (receipts @ [receipt]) (allLogs @ Logs receipt) usedGas' vmenv' w1
          = (Ok (rs, ls, g), w')"
      by (cases r1) auto
    from a ok have a': "applyTransaction ext msg config
                 (w\<lparr>statedb := ext_SetTxContext ext (tx_Hash tx) i (statedb w)\<rparr>)
                 blockNumber blockHash tx usedGas vmenv = (Ok (receipt, usedGas', vmenv'), w1)"
      by simp
    from applyTransaction_receipt [OF a'] False
    have ty: "Type receipt \<noteq> ALEXF_AA_TX_TYPE" and cu: "CumulativeGasUsed receipt = usedGas'"
      by auto
    from Cons.IH [OF rest] obtain new where
      n: "rs = (receipts @ [receipt]) @ new" "\<forall>r\<in>set new. Type r \<noteq> ALEXF_AA_TX_TYPE"
        "if new = [] then g = usedGas' else CumulativeGasUsed (last new) = g"
        "gasPoolRespected ext \<longrightarrow> unat usedGas' + unat (gp w1) < 2 ^ 64
                \<longrightarrow> sorted (map CumulativeGasUsed new)
                    \<and> (\<forall>r\<in>set new. usedGas' \<le> CumulativeGasUsed r)"
      by blast
    have gas: "gasPoolRespected ext \<longrightarrow> unat usedGas + unat (gp w) < 2 ^ 64
                \<longrightarrow> sorted (map CumulativeGasUsed (receipt # new))
                    \<and> (\<forall>r\<in>set (receipt # new). usedGas \<le> CumulativeGasUsed r)"
    proof (intro impI)
      assume r: "gasPoolRespected ext" and b: "unat usedGas + unat (gp w) < 2 ^ 64"
      from applyTransaction_gas [OF a' r] b
      have "usedGas \<le> usedGas'" "unat usedGas' + unat (gp w1) < 2 ^ 64" by auto
      with n(4) r cu show "sorted (map CumulativeGasUsed (receipt # new))
                    \<and> (\<forall>r\<in>set (receipt # new). usedGas \<le> CumulativeGasUsed r)"
        by auto
    qed
    show ?thesis
      using n(1,2,3) ty cu gas by (intro exI [of _ "receipt # new"]) auto
  qed
qed

section \<open>The paths through Process\<close>

text \<open>The paths through \<open>Process\<close>.\<close>

lemma Process_paths:
  assumes "Process ext config block s0 = (out, wz)"
  obtains
    (BeaconPanic) p where "out = Panics p" "calls wz = []"
  | (ValidationStops) w1 r where "calls w1 = []" "gp w1 = b_GasLimit block"
      "validationLoop ext config (b_Header block) (b_Transactions block) [] w1 = (r, wz)"
      "(\<exists>p. r = Panic p \<and> out = Panics p) \<or> (\<exists>e. r = Err e \<and> out = Returns (failWith e))"
  | (ExecutionStops) w1 vprs w2 r where "calls w1 = []" "gp w1 = b_GasLimit block"
      "validationLoop ext config (b_Header block) (b_Transactions block) [] w1 = (Ok vprs, w2)"
      "executionLoop ext config (b_Number block) (b_Hash block) (b_Header block) vprs [] [] w2
         = (r, wz)"
      "(\<exists>p. r = Panic p \<and> out = Panics p) \<or> (\<exists>e. r = Err e \<and> out = Returns (failWith e))"
  | (TransactionStops) w1 vprs w2 rs ls w3 vmenv1 r where "calls w1 = []"
      "gp w1 = b_GasLimit block"
      "validationLoop ext config (b_Header block) (b_Transactions block) [] w1 = (Ok vprs, w2)"
      "executionLoop ext config (b_Number block) (b_Hash block) (b_Header block) vprs [] [] w2
         = (Ok (rs, ls), w3)"
      "transactionLoop ext config (b_Header block) (b_Number block) (b_Hash block) 0
         (b_Transactions block) rs ls 0 vmenv1 w3 = (r, wz)"
      "(\<exists>p. r = Panic p \<and> out = Panics p) \<or> (\<exists>e. r = Err e \<and> out = Returns (failWith e))"
  | (Completes) w1 vprs w2 rs ls w3 vmenv1 rs' ls' g w4 s2 where "calls w1 = []"
      "gp w1 = b_GasLimit block"
      "validationLoop ext config (b_Header block) (b_Transactions block) [] w1 = (Ok vprs, w2)"
      "executionLoop ext config (b_Number block) (b_Hash block) (b_Header block) vprs [] [] w2
         = (Ok (rs, ls), w3)"
      "transactionLoop ext config (b_Header block) (b_Number block) (b_Hash block) 0
         (b_Transactions block) rs ls 0 vmenv1 w3 = (Ok (rs', ls', g), w4)"
      "calls wz = calls w4"
      "out = (if b_Withdrawals block \<noteq> []
                 \<and> \<not> IsShanghai config (b_Number block) (b_Time block)
              then Returns (failWith (ErrorsNew ''withdrawals before shanghai''))
              else Returns \<lparr>ret_receipts = rs', ret_logs = ls', ret_usedGas = g,
                     ret_err = None\<rparr>)"
      "preBlock ext config block s0 = Returns (vmenv1, s2)"
      "w1 = \<lparr>calls = [], gp = b_GasLimit block, statedb = s2\<rparr>"
proof -
  let ?s1 = "if DAOForkSupport config \<and> DAOForkBlock config = Some (b_Number block)
             then ext_ApplyDAOHardFork ext s0 else s0"
  let ?vmenv = "NewEVM (ext_NewEVMBlockContext ext (b_Header block) None)
                  \<lparr>Origin = zeroAddress\<rparr>"
  let ?pre = "case b_BeaconRoot block of None \<Rightarrow> Returns (?vmenv, ?s1)
              | Some beaconRoot \<Rightarrow> ProcessBeaconBlockRoot ext beaconRoot ?vmenv ?s1"
  show thesis
  proof (cases ?pre)
    case (Panics p)
    with assms have "out = Panics p" "calls wz = []"
      by (auto simp: Process_def Let_def)
    then show thesis by (rule BeaconPanic)
  next
    case (Returns x)
    obtain vmenv1 s2 where x: "x = (vmenv1, s2)" by (cases x) auto
    let ?w1 = "\<lparr>calls = [], gp = b_GasLimit block, statedb = s2\<rparr>"
    have w1: "calls ?w1 = []" "gp ?w1 = b_GasLimit block" by simp_all
    obtain r1 w2 where v: "validationLoop ext config (b_Header block) (b_Transactions block)
        [] ?w1 = (r1, w2)"
      by (cases "validationLoop ext config (b_Header block) (b_Transactions block) [] ?w1")
        auto
    show thesis
    proof (cases r1)
      case (Panic p)
      with assms Returns x v have "out = Panics p" "wz = w2"
        by (auto simp: Process_def Let_def)
      with v Panic show thesis by (intro ValidationStops [OF w1]) auto
    next
      case (Err e)
      with assms Returns x v have "out = Returns (failWith e)" "wz = w2"
        by (auto simp: Process_def Let_def)
      with v Err show thesis by (intro ValidationStops [OF w1]) auto
    next
      case (Ok vprs)
      note v' = v [unfolded Ok]
      obtain r2 w3 where e: "executionLoop ext config (b_Number block) (b_Hash block)
          (b_Header block) vprs [] [] w2 = (r2, w3)"
        by (cases "executionLoop ext config (b_Number block) (b_Hash block)
          (b_Header block) vprs [] [] w2") auto
      show thesis
      proof (cases r2)
        case (Panic p)
        with assms Returns x v' e have "out = Panics p" "wz = w3"
          by (auto simp: Process_def Let_def)
        with v' e Panic show thesis by (intro ExecutionStops [OF w1 v']) auto
      next
        case (Err err)
        with assms Returns x v' e have "out = Returns (failWith err)" "wz = w3"
          by (auto simp: Process_def Let_def)
        with v' e Err show thesis by (intro ExecutionStops [OF w1 v']) auto
      next
        case (Ok rl)
        obtain rs ls where rl: "rl = (rs, ls)" by (cases rl) auto
        note e' = e [unfolded Ok rl]
        obtain r3 w4 where t: "transactionLoop ext config (b_Header block) (b_Number block)
            (b_Hash block) 0 (b_Transactions block) rs ls 0 vmenv1 w3 = (r3, w4)"
          by (cases "transactionLoop ext config (b_Header block) (b_Number block)
            (b_Hash block) 0 (b_Transactions block) rs ls 0 vmenv1 w3") auto
        show thesis
        proof (cases r3)
          case (Panic p)
          with assms Returns x v' e' t have "out = Panics p" "wz = w4"
            by (auto simp: Process_def Let_def)
          with t Panic show thesis by (intro TransactionStops [OF w1 v' e']) auto
        next
          case (Err err)
          with assms Returns x v' e' t have "out = Returns (failWith err)" "wz = w4"
            by (auto simp: Process_def Let_def)
          with t Err show thesis by (intro TransactionStops [OF w1 v' e']) auto
        next
          case (Ok rlg)
          obtain rs' ls' g where rlg: "rlg = (rs', ls', g)" by (cases rlg) auto
          note t' = t [unfolded Ok rlg]
          from assms Returns x v' e' t'
          have "calls wz = calls w4"
            and "out = (if b_Withdrawals block \<noteq> []
                 \<and> \<not> IsShanghai config (b_Number block) (b_Time block)
              then Returns (failWith (ErrorsNew ''withdrawals before shanghai''))
              else Returns \<lparr>ret_receipts = rs', ret_logs = ls', ret_usedGas = g,
                     ret_err = None\<rparr>)"
            by (auto simp: Process_def Let_def split: if_splits)
          moreover from Returns x have "preBlock ext config block s0 = Returns (vmenv1, s2)"
            by (simp add: preBlock_def)
          ultimately show thesis by (intro Completes [OF w1 v' e' t']) auto
        qed
      qed
    qed
  qed
qed

lemma Process_completes:
  assumes "preBlock ext config block s0 = Returns (vmenv1, s2)"
    and "validationLoop ext config (b_Header block) (b_Transactions block) []
           \<lparr>calls = [], gp = b_GasLimit block, statedb = s2\<rparr> = (Ok vprs, w2)"
    and "executionLoop ext config (b_Number block) (b_Hash block) (b_Header block) vprs [] [] w2
           = (Ok (rs, ls), w3)"
    and "transactionLoop ext config (b_Header block) (b_Number block) (b_Hash block) 0
           (b_Transactions block) rs ls 0 vmenv1 w3 = (Ok (rs', ls', g), w4)"
  shows "fst (Process ext config block s0)
           = (if b_Withdrawals block \<noteq> []
                 \<and> \<not> IsShanghai config (b_Number block) (b_Time block)
              then Returns (failWith (ErrorsNew ''withdrawals before shanghai''))
              else Returns \<lparr>ret_receipts = rs', ret_logs = ls', ret_usedGas = g,
                     ret_err = None\<rparr>)"
  using assms by (simp add: Process_def preBlock_def Let_def)


lemma preBlock_withdrawals:
  "preBlock ext config (block\<lparr>b_Withdrawals := ws\<rparr>) s0 = preBlock ext config block s0"
  by (cases "b_BeaconRoot block") (simp_all add: preBlock_def)

section \<open>Unfolding for concrete runs\<close>

lemmas test_defs = testExt_def testInvoker_def testAATx_def testEVM_def testWorld_def
  testConfig_def testHeader_def aaTransaction_def legacyTransaction_def testBlock_def
  testSender_def testPaymaster_def testDeployer_def rejectingInvoker_def failingInvoker_def
  withWithdrawals_def strictSigner_def

lemmas model_defs = applyAlexfAATransactionValidationPhase_def ApplyMessage_def
  deployerCall_def paymasterCall_def aaFrameMsg_def emptyMessage_def zeroAddress_def
  postOpCall_def applyAlexfAATransactionExecutionPhase_def
  ApplyAlexfAATransactionValidationPhase_def ApplyAlexfAATransactionExecutionPhase_def
  NewEVM_def Reset_def applyTransaction_def Process_def failWith_def zeroHash_def Let_def
  newCalls_def

lemma testInvoker_respects_pool: "gasPoolRespected testExt"
proof -
  have "unat (pool - 21000) + 21000 \<le> unat pool" if "\<not> pool < 21000" for pool :: "64 word"
  proof -
    from that have "21000 \<le> pool" by simp
    then have "unat (pool - 21000) = unat pool - unat (21000 :: 64 word)"
      by (rule unat_sub)
    moreover from \<open>21000 \<le> pool\<close> have "unat (21000 :: 64 word) \<le> unat pool"
      by (simp add: word_le_nat_alt)
    ultimately show ?thesis by simp
  qed
  then show ?thesis
    by (auto simp: gasPoolRespected_def testExt_def testInvoker_def split: if_splits)
qed

section \<open>A rejected sponsor validation stops the block\<close>

text \<open>
  C1. The sponsor validation call is the call frame of line 201, made under the guard of
  line 184 (at least 20 bytes of paymaster data). Whenever that call returns a result
  whose \<open>Failed()\<close> is true, \<open>ApplyAlexfAATransactionValidationPhase\<close> returns
  the error of line 208. In a run of \<open>Process\<close> in which such a call was made,
  \<open>Process\<close> returns that error with no receipts, no logs and zero gas, and no call
  frame of the execution phase was made: the execution phase ran for no transaction, and
  no receipt was produced.
\<close>

theorem paymaster_rejection_aborts:
  "(list_ex isRejectedPaymasterCall
       (newCalls w (snd (ApplyAlexfAATransactionValidationPhase ext config author header tx w)))
     \<longrightarrow> fst (ApplyAlexfAATransactionValidationPhase ext config author header tx w)
           = Err (ErrorsNew ''paymaster validation failed - invalid transaction''))
   \<and> (list_ex isRejectedPaymasterCall (calls (snd (Process ext config block s0)))
     \<longrightarrow> fst (Process ext config block s0)
           = Returns \<lparr>ret_receipts = [], ret_logs = [], ret_usedGas = 0,
               ret_err = Some (ErrorsNew ''paymaster validation failed - invalid transaction'')\<rparr>
         \<and> \<not> list_ex (\<lambda>c. fst c \<in> executionFrames) (calls (snd (Process ext config block s0))))"
proof (rule conjI; rule impI)
  assume rej: "list_ex isRejectedPaymasterCall
       (newCalls w (snd (ApplyAlexfAATransactionValidationPhase ext config author header tx w)))"
  obtain r w' where v: "ApplyAlexfAATransactionValidationPhase ext config author header tx w
      = (r, w')"
    by (cases "ApplyAlexfAATransactionValidationPhase ext config author header tx w") auto
  from validation_calls [OF v] obtain cs where "calls w' = calls w @ cs"
    "list_ex isRejectedPaymasterCall cs \<longrightarrow> r = Err paymasterValidationFailed" by blast
  with rej v show "fst (ApplyAlexfAATransactionValidationPhase ext config author header tx w)
           = Err (ErrorsNew ''paymaster validation failed - invalid transaction'')"
    by (simp add: newCalls_def paymasterValidationFailed_def)
next
  assume rej: "list_ex isRejectedPaymasterCall (calls (snd (Process ext config block s0)))"
  obtain out wz where p: "Process ext config block s0 = (out, wz)"
    by (cases "Process ext config block s0") auto
  from rej p have rz: "list_ex isRejectedPaymasterCall (calls wz)" by simp
  have "out = Returns (failWith paymasterValidationFailed)
        \<and> (\<forall>c\<in>set (calls wz). fst c \<notin> executionFrames)"
    using p
  proof (cases rule: Process_paths)
    case (BeaconPanic p)
    with rz show ?thesis by simp
  next
    case (ValidationStops w1 r)
    from validationLoop_calls [OF ValidationStops(3)] ValidationStops(1) obtain cs where
      cs: "calls wz = cs" "\<forall>c\<in>set cs. fst c \<in> validationFrames"
        "list_ex isRejectedPaymasterCall cs \<longrightarrow> r = Err paymasterValidationFailed" by auto
    with rz ValidationStops(4) show ?thesis
      by (auto simp: validationFrames_def executionFrames_def)
  next
    case (ExecutionStops w1 vprs w2 r)
    from validationLoop_calls [OF ExecutionStops(3)] ExecutionStops(1) obtain cs where
      cs: "calls w2 = cs"
        "list_ex isRejectedPaymasterCall cs \<longrightarrow> Ok vprs = Err paymasterValidationFailed"
      by auto
    from executionLoop_calls [OF ExecutionStops(4)] obtain cs2 where
      "calls wz = calls w2 @ cs2" "\<forall>c\<in>set cs2. fst c \<in> executionFrames" by auto
    with cs rz show ?thesis by (auto simp: list_ex_iff executionFrames_def)
  next
    case (TransactionStops w1 vprs w2 rs ls w3 vmenv1 r)
    from validationLoop_calls [OF TransactionStops(3)] TransactionStops(1) obtain cs where
      cs: "calls w2 = cs"
        "list_ex isRejectedPaymasterCall cs \<longrightarrow> Ok vprs = Err paymasterValidationFailed"
      by auto
    from executionLoop_calls [OF TransactionStops(4)] obtain cs2 where
      c2: "calls w3 = calls w2 @ cs2" "\<forall>c\<in>set cs2. fst c \<in> executionFrames" by auto
    from transactionLoop_calls [OF TransactionStops(5)] obtain cs3 where
      "calls wz = calls w3 @ cs3" "\<forall>c\<in>set cs3. fst c = TransactionFrame" by auto
    with cs c2 rz show ?thesis by (auto simp: list_ex_iff executionFrames_def)
  next
    case (Completes w1 vprs w2 rs ls w3 vmenv1 rs' ls' g w4)
    from validationLoop_calls [OF Completes(3)] Completes(1) obtain cs where
      cs: "calls w2 = cs"
        "list_ex isRejectedPaymasterCall cs \<longrightarrow> Ok vprs = Err paymasterValidationFailed"
      by auto
    from executionLoop_calls [OF Completes(4)] obtain cs2 where
      c2: "calls w3 = calls w2 @ cs2" "\<forall>c\<in>set cs2. fst c \<in> executionFrames" by auto
    from transactionLoop_calls [OF Completes(5)] obtain cs3 where
      "calls w4 = calls w3 @ cs3" "\<forall>c\<in>set cs3. fst c = TransactionFrame" by auto
    with cs c2 rz Completes(6) show ?thesis by (auto simp: list_ex_iff executionFrames_def)
  qed
  with p show "fst (Process ext config block s0)
           = Returns \<lparr>ret_receipts = [], ret_logs = [], ret_usedGas = 0,
               ret_err = Some (ErrorsNew ''paymaster validation failed - invalid transaction'')\<rparr>
         \<and> \<not> list_ex (\<lambda>c. fst c \<in> executionFrames) (calls (snd (Process ext config block s0)))"
    by (simp add: failWith_def paymasterValidationFailed_def list_ex_iff)
qed

text \<open>
  A block with a legacy transaction and an AA transaction whose sponsor rejects it.
\<close>

theorem paymaster_rejection_aborts_witness:
  "list_ex isRejectedPaymasterCall
     (newCalls testWorld (snd (ApplyAlexfAATransactionValidationPhase
        (testExt\<lparr>ext_ApplyMessage := rejectingInvoker\<rparr>) testConfig None testHeader
        (aaTransaction testAATx) testWorld)))
   \<and> fst (ApplyAlexfAATransactionValidationPhase
        (testExt\<lparr>ext_ApplyMessage := rejectingInvoker\<rparr>) testConfig None testHeader
        (aaTransaction testAATx) testWorld)
       = Err (ErrorsNew ''paymaster validation failed - invalid transaction'')
   \<and> list_ex isRejectedPaymasterCall
       (calls (snd (Process (testExt\<lparr>ext_ApplyMessage := rejectingInvoker\<rparr>) testConfig
          (testBlock [legacyTransaction 1, aaTransaction testAATx]) ())))
   \<and> fst (Process (testExt\<lparr>ext_ApplyMessage := rejectingInvoker\<rparr>) testConfig
          (testBlock [legacyTransaction 1, aaTransaction testAATx]) ())
       = Returns \<lparr>ret_receipts = [], ret_logs = [], ret_usedGas = 0,
           ret_err = Some (ErrorsNew ''paymaster validation failed - invalid transaction'')\<rparr>
   \<and> \<not> list_ex (\<lambda>c. fst c \<in> executionFrames)
         (calls (snd (Process (testExt\<lparr>ext_ApplyMessage := rejectingInvoker\<rparr>) testConfig
            (testBlock [legacyTransaction 1, aaTransaction testAATx]) ())))"
proof -
  have h1: "list_ex isRejectedPaymasterCall
     (newCalls testWorld (snd (ApplyAlexfAATransactionValidationPhase
        (testExt\<lparr>ext_ApplyMessage := rejectingInvoker\<rparr>) testConfig None testHeader
        (aaTransaction testAATx) testWorld)))"
    by (simp add: test_defs model_defs)
  have h2: "list_ex isRejectedPaymasterCall
       (calls (snd (Process (testExt\<lparr>ext_ApplyMessage := rejectingInvoker\<rparr>) testConfig
          (testBlock [legacyTransaction 1, aaTransaction testAATx]) ())))"
    by (simp add: test_defs model_defs)
  show ?thesis
    using h1 h2 paymaster_rejection_aborts [of testWorld
        "testExt\<lparr>ext_ApplyMessage := rejectingInvoker\<rparr>" testConfig None testHeader
        "aaTransaction testAATx" "testBlock [legacyTransaction 1, aaTransaction testAATx]" "()"]
    by blast
qed

section \<open>The sponsor's context and the post-operation call\<close>

text \<open>
  C2. The code at an AA transaction with a sponsor (22 bytes of paymaster data, every
  call frame succeeding): the sponsor validation call is made, and the
  \<open>ValidationPhaseResult\<close> still carries an empty \<open>paymasterContext\<close>, because the
  variable of line 183 is declared and never assigned. Hence, for every block and
  whatever the collaborators do, \<open>Process\<close> never makes the post-operation call of
  line 260.
\<close>

theorem paymaster_context_never_set:
  "fst (applyAlexfAATransactionValidationPhase testExt testAATx testEVM testWorld)
     = Ok \<lparr>Tx = None, paymasterContext = [], validationGasUsed = 0, paymasterGasUsed = 0\<rparr>
   \<and> map fst (calls (snd (applyAlexfAATransactionValidationPhase testExt testAATx testEVM
         testWorld)))
       = [NonceManagerFrame, DeployerFrame, AccountValidationFrame, PaymasterValidationFrame]
   \<and> \<not> list_ex (\<lambda>c. fst c = PaymasterPostOpFrame)
         (calls (snd (Process ext config block s0)))"
proof -
  have a: "fst (applyAlexfAATransactionValidationPhase testExt testAATx testEVM testWorld)
     = Ok \<lparr>Tx = None, paymasterContext = [], validationGasUsed = 0, paymasterGasUsed = 0\<rparr>"
    by (simp add: test_defs model_defs)
  have b: "map fst (calls (snd (applyAlexfAATransactionValidationPhase testExt testAATx
         testEVM testWorld)))
       = [NonceManagerFrame, DeployerFrame, AccountValidationFrame, PaymasterValidationFrame]"
    by (simp add: test_defs model_defs)
  obtain out wz where p: "Process ext config block s0 = (out, wz)"
    by (cases "Process ext config block s0") auto
  from p have "\<forall>c\<in>set (calls wz). fst c \<noteq> PaymasterPostOpFrame"
  proof (cases rule: Process_paths)
    case (BeaconPanic p)
    then show ?thesis by simp
  next
    case (ValidationStops w1 r)
    from validationLoop_calls [OF ValidationStops(3)] ValidationStops(1) show ?thesis
      by (auto simp: validationFrames_def)
  next
    case (ExecutionStops w1 vprs w2 r)
    from validationLoop_calls [OF ExecutionStops(3)] ExecutionStops(1) obtain cs where
      cs: "calls w2 = cs" "\<forall>c\<in>set cs. fst c \<in> validationFrames" by auto
    from validationLoop_results [OF ExecutionStops(3)]
    have "\<forall>v\<in>set vprs. paymasterContext v = []" by simp
    with executionLoop_calls [OF ExecutionStops(4)] obtain cs2 where
      "calls wz = calls w2 @ cs2" "\<forall>c\<in>set cs2. fst c = AccountExecutionFrame" by auto
    with cs show ?thesis by (auto simp: validationFrames_def)
  next
    case (TransactionStops w1 vprs w2 rs ls w3 vmenv1 r)
    from validationLoop_calls [OF TransactionStops(3)] TransactionStops(1) obtain cs where
      cs: "calls w2 = cs" "\<forall>c\<in>set cs. fst c \<in> validationFrames" by auto
    from validationLoop_results [OF TransactionStops(3)]
    have "\<forall>v\<in>set vprs. paymasterContext v = []" by simp
    with executionLoop_calls [OF TransactionStops(4)] obtain cs2 where
      c2: "calls w3 = calls w2 @ cs2" "\<forall>c\<in>set cs2. fst c = AccountExecutionFrame" by auto
    from transactionLoop_calls [OF TransactionStops(5)] obtain cs3 where
      "calls wz = calls w3 @ cs3" "\<forall>c\<in>set cs3. fst c = TransactionFrame" by auto
    with cs c2 show ?thesis by (auto simp: validationFrames_def)
  next
    case (Completes w1 vprs w2 rs ls w3 vmenv1 rs' ls' g w4)
    from validationLoop_calls [OF Completes(3)] Completes(1) obtain cs where
      cs: "calls w2 = cs" "\<forall>c\<in>set cs. fst c \<in> validationFrames" by auto
    from validationLoop_results [OF Completes(3)]
    have "\<forall>v\<in>set vprs. paymasterContext v = []" by simp
    with executionLoop_calls [OF Completes(4)] obtain cs2 where
      c2: "calls w3 = calls w2 @ cs2" "\<forall>c\<in>set cs2. fst c = AccountExecutionFrame" by auto
    from transactionLoop_calls [OF Completes(5)] obtain cs3 where
      "calls w4 = calls w3 @ cs3" "\<forall>c\<in>set cs3. fst c = TransactionFrame" by auto
    with cs c2 Completes(6) show ?thesis by (auto simp: validationFrames_def)
  qed
  with p have "\<not> list_ex (\<lambda>c. fst c = PaymasterPostOpFrame)
         (calls (snd (Process ext config block s0)))"
    by (simp add: list_ex_iff)
  with a b show ?thesis by simp
qed

section \<open>An AA transaction without paymaster data\<close>

text \<open>
  C3. The code at an AA transaction with empty paymaster data: the validation phase
  panics while it builds the message of the nonce manager call, before any call frame is
  made. Line 140 slices \<open>PaymasterData\<close> from index 20 without the guard that line
  184 puts before the sponsor call (with a nil sender the dereference of line 133 panics
  first). \<open>Process\<close> on a block with such a transaction panics with it.
\<close>

theorem validation_panics_without_paymaster_data:
  "applyAlexfAATransactionValidationPhase ext (aatx\<lparr>PaymasterData := []\<rparr>) evm w
     = (Panic (case Sender aatx of None \<Rightarrow> NilPointerDereference
               | Some sender \<Rightarrow> SliceBoundsOutOfRange), w)
   \<and> Process testExt testConfig
        (testBlock [aaTransaction (testAATx\<lparr>PaymasterData := []\<rparr>)]) ()
       = (Panics SliceBoundsOutOfRange, \<lparr>calls = [], gp = 30000000, statedb = ()\<rparr>)"
proof
  show "applyAlexfAATransactionValidationPhase ext (aatx\<lparr>PaymasterData := []\<rparr>) evm w
     = (Panic (case Sender aatx of None \<Rightarrow> NilPointerDereference
               | Some sender \<Rightarrow> SliceBoundsOutOfRange), w)"
    by (cases "Sender aatx") (simp_all add: applyAlexfAATransactionValidationPhase_def)
  show "Process testExt testConfig
        (testBlock [aaTransaction (testAATx\<lparr>PaymasterData := []\<rparr>)]) ()
       = (Panics SliceBoundsOutOfRange, \<lparr>calls = [], gp = 30000000, statedb = ()\<rparr>)"
    by (simp add: test_defs model_defs)
qed

section \<open>The message of the deployer call\<close>

text \<open>
  C4. The code at an AA transaction whose deployer data starts with a non-zero address:
  the deployer call is made, with the message of line 154, \<open>&Message{}\<close>, which has no
  recipient. The address that line 152 reads from the deployer data is only compared with
  zero. The other call frames of the validation phase have the recipients they are built
  with.
\<close>

theorem deployer_call_message:
  "20 \<le> length (DeployerData testAATx)
   \<and> take 20 (DeployerData testAATx) = testDeployer
   \<and> testDeployer \<noteq> zeroAddress
   \<and> map (\<lambda>(site, msg, r). (site, To msg))
        (calls (snd (applyAlexfAATransactionValidationPhase testExt testAATx testEVM testWorld)))
       = [(NonceManagerFrame, Some zeroAddress), (DeployerFrame, None),
          (AccountValidationFrame, Some testSender),
          (PaymasterValidationFrame, Some testPaymaster)]"
  by (simp add: test_defs model_defs)

section \<open>Errors returned by Process\<close>




section \<open>Withdrawals before Shanghai\<close>

text \<open>
  C6, as it holds of the code. For a block with a non-empty list of withdrawals, under
  a configuration that is not at Shanghai for the block: whenever \<open>Process\<close> returns,
  it returns an error with no receipts, no logs and zero gas; and when the same block
  without its withdrawals is processed without error, the error is
  \<open>withdrawals before shanghai\<close>. The check of line 122 stands after the three loops
  over the transactions, so the error or the panic of a transaction comes first.
\<close>

theorem withdrawals_before_shanghai:
  assumes "b_Withdrawals block \<noteq> []"
    and "\<not> IsShanghai config (b_Number block) (b_Time block)"
  shows "(\<forall>ret. fst (Process ext config block s0) = Returns ret
            \<longrightarrow> ret_receipts ret = [] \<and> ret_logs ret = [] \<and> ret_usedGas ret = 0
                \<and> ret_err ret \<noteq> None)
       \<and> ((\<exists>ret. fst (Process ext config (block\<lparr>b_Withdrawals := []\<rparr>) s0) = Returns ret
                \<and> ret_err ret = None)
            \<longrightarrow> fst (Process ext config block s0)
                = Returns \<lparr>ret_receipts = [], ret_logs = [], ret_usedGas = 0,
                    ret_err = Some (ErrorsNew ''withdrawals before shanghai'')\<rparr>)"
proof (rule conjI)
  obtain out wz where p: "Process ext config block s0 = (out, wz)"
    by (cases "Process ext config block s0") auto
  from p have "\<forall>ret. out = Returns ret
            \<longrightarrow> ret_receipts ret = [] \<and> ret_logs ret = [] \<and> ret_usedGas ret = 0
                \<and> ret_err ret \<noteq> None"
  proof (cases rule: Process_paths)
    case (Completes w1 vprs w2 rs ls w3 vmenv1 rs' ls' g w4)
    with assms show ?thesis by (simp add: failWith_def)
  qed (auto simp: failWith_def)
  with p show "\<forall>ret. fst (Process ext config block s0) = Returns ret
            \<longrightarrow> ret_receipts ret = [] \<and> ret_logs ret = [] \<and> ret_usedGas ret = 0
                \<and> ret_err ret \<noteq> None" by simp
next
  show "(\<exists>ret. fst (Process ext config (block\<lparr>b_Withdrawals := []\<rparr>) s0) = Returns ret
                \<and> ret_err ret = None)
            \<longrightarrow> fst (Process ext config block s0)
                = Returns \<lparr>ret_receipts = [], ret_logs = [], ret_usedGas = 0,
                    ret_err = Some (ErrorsNew ''withdrawals before shanghai'')\<rparr>"
  proof
    let ?b = "block\<lparr>b_Withdrawals := []\<rparr>"
    assume "\<exists>ret. fst (Process ext config ?b s0) = Returns ret \<and> ret_err ret = None"
    then obtain ret wz where p: "Process ext config ?b s0 = (Returns ret, wz)"
      and ok: "ret_err ret = None"
      by (cases "Process ext config ?b s0") auto
    from p show "fst (Process ext config block s0)
                = Returns \<lparr>ret_receipts = [], ret_logs = [], ret_usedGas = 0,
                    ret_err = Some (ErrorsNew ''withdrawals before shanghai'')\<rparr>"
    proof (cases rule: Process_paths)
      case (Completes w1 vprs w2 rs ls w3 vmenv1 rs' ls' g w4 s2)
      from Completes(8) have pre: "preBlock ext config block s0 = Returns (vmenv1, s2)"
        by (simp only: preBlock_withdrawals)
      from Process_completes [OF pre] Completes(3,4,5,9) assms show ?thesis
        by (simp add: failWith_def)
    qed (use ok in \<open>auto simp: failWith_def\<close>)
  qed
qed

text \<open>
  Another error than the one of the fork: the only transaction of the block has an
  invalid sender, and \<open>Process\<close> returns that transaction's error.
\<close>

theorem withdrawals_before_shanghai_counterexample:
  "b_Withdrawals (withWithdrawals (testBlock [legacyTransaction 2])) \<noteq> []
   \<and> \<not> IsShanghai testConfig
         (b_Number (withWithdrawals (testBlock [legacyTransaction 2])))
         (b_Time (withWithdrawals (testBlock [legacyTransaction 2])))
   \<and> fst (Process (testExt\<lparr>ext_TransactionToMessage := strictSigner\<rparr>) testConfig
          (withWithdrawals (testBlock [legacyTransaction 2])) ())
       = Returns \<lparr>ret_receipts = [], ret_logs = [], ret_usedGas = 0,
           ret_err = Some (CouldNotApplyTx 0 (tx_Hash (legacyTransaction 2))
              (ExternalError ''invalid sender''))\<rparr>
   \<and> CouldNotApplyTx 0 (tx_Hash (legacyTransaction 2)) (ExternalError ''invalid sender'')
       \<noteq> ErrorsNew ''withdrawals before shanghai''"
  by (simp add: test_defs model_defs)

text \<open>
  The error of the fork: the transaction of the block is applied, then line 123
  returns.
\<close>

theorem withdrawals_before_shanghai_witness:
  "b_Withdrawals (withWithdrawals (testBlock [legacyTransaction 1])) \<noteq> []
   \<and> \<not> IsShanghai testConfig
         (b_Number (withWithdrawals (testBlock [legacyTransaction 1])))
         (b_Time (withWithdrawals (testBlock [legacyTransaction 1])))
   \<and> fst (Process testExt testConfig (withWithdrawals (testBlock [legacyTransaction 1])) ())
       = Returns \<lparr>ret_receipts = [], ret_logs = [], ret_usedGas = 0,
           ret_err = Some (ErrorsNew ''withdrawals before shanghai'')\<rparr>"
proof -
  let ?b = "withWithdrawals (testBlock [legacyTransaction 1])"
  have w: "b_Withdrawals ?b \<noteq> []" by (simp add: test_defs)
  have s: "\<not> IsShanghai testConfig (b_Number ?b) (b_Time ?b)" by (simp add: test_defs)
  have ok: "\<exists>ret. fst (Process testExt testConfig (?b\<lparr>b_Withdrawals := []\<rparr>) ()) = Returns ret
                \<and> ret_err ret = None"
    by (simp add: test_defs model_defs)
  from withdrawals_before_shanghai [OF w s, of testExt "()"] ok w s show ?thesis by blast
qed

section \<open>Cumulative gas of the receipts\<close>

text \<open>
  C7. When \<open>Process\<close> completes without error: the cumulative gas used of the
  receipts of the transactions that are not AA transactions, in the order in which they
  were applied, is non-decreasing, and the cumulative gas used of the last of them is the
  gas used that \<open>Process\<close> returns. The order needs the invoker to respect the gas
  pool: the sum of line 299 is a \<open>uint64\<close> that wraps, and it stays within the gas
  limit of the block when every call frame takes its gas from the pool.
\<close>

theorem cumulative_gas_of_legacy_receipts:
  assumes "fst (Process ext config block s0) = Returns ret" and "ret_err ret = None"
  shows "(gasPoolRespected ext
            \<longrightarrow> sorted (map CumulativeGasUsed
                  (filter (\<lambda>r. Type r \<noteq> ALEXF_AA_TX_TYPE) (ret_receipts ret))))
       \<and> (filter (\<lambda>r. Type r \<noteq> ALEXF_AA_TX_TYPE) (ret_receipts ret) \<noteq> []
            \<longrightarrow> CumulativeGasUsed
                  (last (filter (\<lambda>r. Type r \<noteq> ALEXF_AA_TX_TYPE) (ret_receipts ret)))
                = ret_usedGas ret)"
proof -
  obtain out wz where p: "Process ext config block s0 = (out, wz)"
    by (cases "Process ext config block s0") auto
  with assms have out: "out = Returns ret" by simp
  from p show ?thesis
  proof (cases rule: Process_paths)
    case (BeaconPanic p)
    with out show ?thesis by simp
  next
    case (ValidationStops w1 r)
    with out assms(2) show ?thesis by (auto simp: failWith_def)
  next
    case (ExecutionStops w1 vprs w2 r)
    with out assms(2) show ?thesis by (auto simp: failWith_def)
  next
    case (TransactionStops w1 vprs w2 rs ls w3 vmenv1 r)
    with out assms(2) show ?thesis by (auto simp: failWith_def)
  next
    case (Completes w1 vprs w2 rs ls w3 vmenv1 rs' ls' g w4)
    with out assms(2) have ret: "ret_receipts ret = rs'" "ret_usedGas ret = g"
      by (auto simp: failWith_def split: if_splits)
    from validationLoop_results [OF Completes(3)]
    have "\<forall>v\<in>set vprs. map_option tx_Type (Tx v) = Some ALEXF_AA_TX_TYPE" by simp
    from executionLoop_receipts [OF Completes(4) this]
    have aa: "\<forall>r\<in>set rs. Type r = ALEXF_AA_TX_TYPE" by simp
    from transactionLoop_receipts [OF Completes(5)] obtain new where
      n: "rs' = rs @ new" "\<forall>r\<in>set new. Type r \<noteq> ALEXF_AA_TX_TYPE"
        "if new = [] then g = 0 else CumulativeGasUsed (last new) = g"
        "gasPoolRespected ext \<longrightarrow> unat (0 :: 64 word) + unat (gp w3) < 2 ^ 64
                \<longrightarrow> sorted (map CumulativeGasUsed new)"
      by blast
    have "unat (gp w3) < 2 ^ 64" using unsigned_less [of "gp w3", where ?'a = nat] by simp
    with n(4) have s: "gasPoolRespected ext \<longrightarrow> sorted (map CumulativeGasUsed new)" by simp
    from aa n(1,2) have f: "filter (\<lambda>r. Type r \<noteq> ALEXF_AA_TX_TYPE) rs' = new"
      by (simp add: filter_id_conv)
    from f s n(3) ret show ?thesis by (auto split: if_splits)
  qed
qed

text \<open>
  Two legacy transactions around an AA transaction, 21000 gas each.
\<close>

theorem cumulative_gas_of_legacy_receipts_witness:
  "gasPoolRespected testExt
   \<and> map CumulativeGasUsed (filter (\<lambda>r. Type r \<noteq> ALEXF_AA_TX_TYPE)
         (ret_receipts (case fst (Process testExt testConfig
            (testBlock [legacyTransaction 1, aaTransaction testAATx, legacyTransaction 2]) ())
          of Returns ret \<Rightarrow> ret))) = [21000, 42000]
   \<and> sorted [21000, 42000 :: 64 word]
   \<and> ret_usedGas (case fst (Process testExt testConfig
            (testBlock [legacyTransaction 1, aaTransaction testAATx, legacyTransaction 2]) ())
          of Returns ret \<Rightarrow> ret) = 42000"
proof -
  let ?b = "testBlock [legacyTransaction 1, aaTransaction testAATx, legacyTransaction 2]"
  let ?ret = "case fst (Process testExt testConfig ?b ()) of Returns ret \<Rightarrow> ret"
  let ?legacy = "filter (\<lambda>r. Type r \<noteq> ALEXF_AA_TX_TYPE) (ret_receipts ?ret)"
  have run: "fst (Process testExt testConfig ?b ()) = Returns ?ret"
    by (simp add: test_defs model_defs)
  have e: "ret_err ?ret = None"
    by (simp add: test_defs model_defs)
  have c: "map CumulativeGasUsed ?legacy = [21000, 42000]"
    by (simp add: test_defs model_defs)
  then have ne: "?legacy \<noteq> []" by auto
  from cumulative_gas_of_legacy_receipts [OF run e] testInvoker_respects_pool ne
  have s: "sorted (map CumulativeGasUsed ?legacy)"
    and l: "CumulativeGasUsed (last ?legacy) = ret_usedGas ?ret"
    by blast+
  from ne have "CumulativeGasUsed (last ?legacy) = last (map CumulativeGasUsed ?legacy)"
    by (simp add: last_map)
  with c l have u: "ret_usedGas ?ret = 42000" by simp
  from s c have "sorted [21000, 42000 :: 64 word]" by simp
  with c u testInvoker_respects_pool show ?thesis by blast
qed

section \<open>A failing TransactionToMessage in the AA wrappers\<close>

text \<open>
  C10. The code when \<open>TransactionToMessage\<close> fails for an AA transaction. The
  validation wrapper never tests the error, which line 366 overwrites: when a message
  comes with the error, validation goes on and succeeds; when none comes,
  \<open>NewEVMTxContext\<close> dereferences the nil message and the wrapper panics. The
  execution wrapper tests the error at line 386, after \<open>NewEVMTxContext\<close> has used
  the message: it panics on the nil message, and returns the error only when a message
  came with it. \<open>ApplyTransaction\<close> tests the error first (line 337).
\<close>

theorem TransactionToMessage_error_ignored:
  "fst (ApplyAlexfAATransactionValidationPhase
          (testExt\<lparr>ext_TransactionToMessage :=
             (\<lambda>tx header. (Some emptyMessage, Some (ExternalError ''invalid sender'')))\<rparr>)
          testConfig None testHeader (aaTransaction testAATx) testWorld)
     = Ok \<lparr>Tx = Some (aaTransaction testAATx), paymasterContext = [], validationGasUsed = 0,
           paymasterGasUsed = 0\<rparr>
   \<and> fst (ApplyAlexfAATransactionValidationPhase
          (testExt\<lparr>ext_TransactionToMessage :=
             (\<lambda>tx header. (None, Some (ExternalError ''invalid sender'')))\<rparr>)
          testConfig None testHeader (aaTransaction testAATx) testWorld)
       = Panic NilPointerDereference
   \<and> fst (ApplyAlexfAATransactionExecutionPhase
          (testExt\<lparr>ext_TransactionToMessage :=
             (\<lambda>tx header. (None, Some (ExternalError ''invalid sender'')))\<rparr>)
          testConfig
          \<lparr>Tx = Some (aaTransaction testAATx), paymasterContext = [], validationGasUsed = 0,
           paymasterGasUsed = 0\<rparr>
          1 zeroHash None testHeader testWorld)
       = Panic NilPointerDereference
   \<and> fst (ApplyAlexfAATransactionExecutionPhase
          (testExt\<lparr>ext_TransactionToMessage :=
             (\<lambda>tx header. (Some emptyMessage, Some (ExternalError ''invalid sender'')))\<rparr>)
          testConfig
          \<lparr>Tx = Some (aaTransaction testAATx), paymasterContext = [], validationGasUsed = 0,
           paymasterGasUsed = 0\<rparr>
          1 zeroHash None testHeader testWorld)
       = Err (ExternalError ''invalid sender'')"
  by (simp add: test_defs model_defs)

section \<open>The authorization tuple: decoding and round trip\<close>

text \<open>
  C8. When \<open>json.Unmarshal\<close> decodes the input and exactly one of the fields address,
  nonce, v, r, s is absent from it, \<open>UnmarshalJSON\<close> fails with the error that names
  that field; when only chainId is absent it returns no error.
\<close>

theorem UnmarshalJSON_required_fields:
  assumes "unmarshal input = Inr dec"
  shows "(dec_Address dec = None \<and> dec_Nonce dec \<noteq> None \<and> dec_V dec \<noteq> None
            \<and> dec_R dec \<noteq> None \<and> dec_S dec \<noteq> None
          \<longrightarrow> fst (UnmarshalJSON unmarshal s input)
              = Some (ErrorsNew ''missing required field 'address' for stAuthorization''))
       \<and> (dec_Address dec \<noteq> None \<and> dec_Nonce dec = None \<and> dec_V dec \<noteq> None
            \<and> dec_R dec \<noteq> None \<and> dec_S dec \<noteq> None
          \<longrightarrow> fst (UnmarshalJSON unmarshal s input)
              = Some (ErrorsNew ''missing required field 'nonce' for stAuthorization''))
       \<and> (dec_Address dec \<noteq> None \<and> dec_Nonce dec \<noteq> None \<and> dec_V dec = None
            \<and> dec_R dec \<noteq> None \<and> dec_S dec \<noteq> None
          \<longrightarrow> fst (UnmarshalJSON unmarshal s input)
              = Some (ErrorsNew ''missing required field 'v' for stAuthorization''))
       \<and> (dec_Address dec \<noteq> None \<and> dec_Nonce dec \<noteq> None \<and> dec_V dec \<noteq> None
            \<and> dec_R dec = None \<and> dec_S dec \<noteq> None
          \<longrightarrow> fst (UnmarshalJSON unmarshal s input)
              = Some (ErrorsNew ''missing required field 'r' for stAuthorization''))
       \<and> (dec_Address dec \<noteq> None \<and> dec_Nonce dec \<noteq> None \<and> dec_V dec \<noteq> None
            \<and> dec_R dec \<noteq> None \<and> dec_S dec = None
          \<longrightarrow> fst (UnmarshalJSON unmarshal s input)
              = Some (ErrorsNew ''missing required field 's' for stAuthorization''))
       \<and> (dec_ChainID dec = None \<and> dec_Address dec \<noteq> None \<and> dec_Nonce dec \<noteq> None
            \<and> dec_V dec \<noteq> None \<and> dec_R dec \<noteq> None \<and> dec_S dec \<noteq> None
          \<longrightarrow> fst (UnmarshalJSON unmarshal s input) = None)"
  using assms by (auto simp: UnmarshalJSON_def Let_def split: option.splits)

theorem UnmarshalJSON_required_fields_witness:
  "fst (UnmarshalJSON testUnmarshal testAuthorization ''cnvrs'')
     = Some (ErrorsNew ''missing required field 'address' for stAuthorization'')
   \<and> fst (UnmarshalJSON testUnmarshal testAuthorization ''cavrs'')
     = Some (ErrorsNew ''missing required field 'nonce' for stAuthorization'')
   \<and> fst (UnmarshalJSON testUnmarshal testAuthorization ''canrs'')
     = Some (ErrorsNew ''missing required field 'v' for stAuthorization'')
   \<and> fst (UnmarshalJSON testUnmarshal testAuthorization ''canvs'')
     = Some (ErrorsNew ''missing required field 'r' for stAuthorization'')
   \<and> fst (UnmarshalJSON testUnmarshal testAuthorization ''canvr'')
     = Some (ErrorsNew ''missing required field 's' for stAuthorization'')
   \<and> fst (UnmarshalJSON testUnmarshal testAuthorization ''anvrs'') = None"
proof -
  note t = UnmarshalJSON_required_fields [of testUnmarshal _ _ testAuthorization]
  show ?thesis
    using t [of "''cnvrs''"] t [of "''cavrs''"] t [of "''canrs''"] t [of "''canvs''"]
      t [of "''canvr''"] t [of "''anvrs''"]
    by (simp add: testUnmarshal_def)
qed



end
